theory Spec2Isabelle
  imports Complex_Main
begin

section \<open>Values of a data frame\<close>

text \<open>
  Numbers are exact rationals; a missing numeric value (NaN, NaT, a null cell) is
  \<open>None\<close>. Rounding to binary64 and the infinities are not part of the model.
  A column whose type is not fixed (any column of a frame just read, \<open>Duration\<close>
  and \<open>Acquisition_Cost\<close> later) holds cells: a text, a number, a timestamp or the
  missing value. Its pandas dtype is \<open>object\<close> exactly when some cell is text.
  A timestamp is a calendar day.
\<close>

datatype error = ValueError | AttributeError | KeyError | TypeError | IOError

record date =
  year :: int
  month :: nat
  day :: nat

datatype cell = Str string | Num rat | Dt date | Null

fun is_str :: "cell \<Rightarrow> bool" where
  "is_str (Str s) = True"
| "is_str (Num x) = False"
| "is_str (Dt d) = False"
| "is_str Null = False"

definition dtype_object :: "cell list \<Rightarrow> bool" where
  "dtype_object col = list_ex is_str col"

subsection \<open>Text to number\<close>

definition is_digit :: "char \<Rightarrow> bool" where
  "is_digit c = (48 \<le> (of_char c :: nat) \<and> (of_char c :: nat) \<le> 57)"

definition is_space :: "char \<Rightarrow> bool" where
  "is_space c = ((of_char c :: nat) = 32 \<or> (9 \<le> (of_char c :: nat) \<and> (of_char c :: nat) \<le> 13))"

definition digit_val :: "char \<Rightarrow> int" where
  "digit_val c = (of_char c :: int) - 48"

definition digits_val :: "string \<Rightarrow> int" where
  "digits_val ds = foldl (\<lambda>acc c. 10 * acc + digit_val c) 0 ds"

definition strip :: "string \<Rightarrow> string" where
  "strip s = rev (dropWhile is_space (rev (dropWhile is_space s)))"

text \<open>\<open>s.replace(c, '')\<close> for a single character \<open>c\<close>: every occurrence is removed.\<close>

definition str_replace_empty :: "char \<Rightarrow> string \<Rightarrow> string" where
  "str_replace_empty c s = filter (\<lambda>d. d \<noteq> c) s"

fun split_sign :: "string \<Rightarrow> rat \<times> string" where
  "split_sign [] = (1, [])"
| "split_sign (c # cs) =
     (if c = CHR ''-'' then (- 1, cs) else if c = CHR ''+'' then (1, cs) else (1, c # cs))"

fun split_fraction :: "string \<Rightarrow> string \<times> string" where
  "split_fraction [] = ([], [])"
| "split_fraction (c # cs) =
     (if c = CHR ''.'' then (takeWhile is_digit cs, dropWhile is_digit cs) else ([], c # cs))"

text \<open>
  The exponent part of a decimal literal: absent, or \<open>e\<close>/\<open>E\<close>, an optional sign and
  at least one digit up to the end of the text.
\<close>

fun parse_exponent :: "string \<Rightarrow> error + int" where
  "parse_exponent [] = Inr 0"
| "parse_exponent (c # cs) =
     (if c = CHR ''e'' \<or> c = CHR ''E'' then
        (let (sg, ds) = split_sign cs in
         if ds \<noteq> [] \<and> list_all is_digit ds
         then Inr ((if sg < 0 then - 1 else 1) * digits_val ds)
         else Inl ValueError)
      else Inl ValueError)"

definition pow10 :: "int \<Rightarrow> rat" where
  "pow10 e = (if 0 \<le> e then 10 ^ nat e else 1 / 10 ^ nat (- e))"

text \<open>
  Python's \<open>float(s)\<close> on a decimal literal: surrounding white space is dropped, then
  an optional sign, digits with an optional fraction (at least one digit in all) and an
  optional exponent. Anything else raises \<open>ValueError\<close>. The value is the literal's
  exact value. The spellings \<open>inf\<close>, \<open>nan\<close> and digit grouping with \<open>_\<close>, which
  \<open>float\<close> also reads, are outside the model and rejected here.
\<close>

definition py_float :: "string \<Rightarrow> error + rat" where
  "py_float s =
     (let (sg, u) = split_sign (strip s);
          ip = takeWhile is_digit u;
          (fp, r) = split_fraction (dropWhile is_digit u)
      in if ip = [] \<and> fp = [] then Inl ValueError
         else (case parse_exponent r of
                 Inl e \<Rightarrow> Inl e
               | Inr ex \<Rightarrow>
                   Inr (sg * (of_int (digits_val ip) + of_int (digits_val fp) / 10 ^ length fp)
                        * pow10 ex)))"

text \<open>
  \<open>s.replace('$', '').replace(',', '')\<close> followed by \<open>float\<close>, as both the loader
  and the cleaner treat one text cell of \<open>Acquisition_Cost\<close>.
\<close>

definition currency_to_float :: "string \<Rightarrow> error + rat" where
  "currency_to_float s =
     py_float (str_replace_empty CHR '','' (str_replace_empty CHR ''$'' s))"

text \<open>
  \<open>df['Acquisition_Cost'].str.replace('$', '').str.replace(',', '').astype(float)\<close>
  on a column. The \<open>.str\<close> accessor exists only on an \<open>object\<close> column
  (\<open>AttributeError\<close> otherwise); it maps a cell that is not text to NaN; \<open>astype\<close>
  raises on the first text that is not a number.
\<close>

fun cost_cell :: "cell \<Rightarrow> error + cell" where
  "cost_cell (Str s) = (case currency_to_float s of Inl e \<Rightarrow> Inl e | Inr x \<Rightarrow> Inr (Num x))"
| "cost_cell (Num x) = Inr Null"
| "cost_cell (Dt d) = Inr Null"
| "cost_cell Null = Inr Null"

fun sequence :: "(error + 'a) list \<Rightarrow> error + 'a list" where
  "sequence [] = Inr []"
| "sequence (x # xs) =
     (case x of Inl e \<Rightarrow> Inl e
      | Inr v \<Rightarrow> (case sequence xs of Inl e \<Rightarrow> Inl e | Inr vs \<Rightarrow> Inr (v # vs)))"

definition cost_column :: "cell list \<Rightarrow> error + cell list" where
  "cost_column col =
     (if dtype_object col then sequence (map cost_cell col) else Inl AttributeError)"

section \<open>The cleaner\<close>

text \<open>
  One row of the frame. The first sixteen fields are the columns of the input; the last
  seven are the columns that \<open>create_derived_features\<close> assigns, \<open>None\<close> until then.
  The numeric columns and \<open>Date\<close> are as the loader leaves them: numbers and dates, or
  missing.
\<close>

record campaign =
  Campaign_ID :: "int option"
  Company :: "string option"
  Campaign_Type :: "string option"
  Target_Audience :: "string option"
  Duration :: cell
  Channel_Used :: "string option"
  Conversion_Rate :: "rat option"
  Acquisition_Cost :: cell
  ROI :: "rat option"
  Location :: "string option"
  Language :: "string option"
  Clicks :: "rat option"
  Impressions :: "rat option"
  Engagement_Score :: "rat option"
  Customer_Segment :: "string option"
  Date :: "date option"
  Campaign_Duration :: "rat option"
  Duration_Category :: "string option"
  Engagement_Rate :: "rat option"
  Month :: "nat option"
  Quarter :: "nat option"
  Year :: "int option"
  Engagement_Category :: "string option"

type_synonym 'a column = "(campaign \<Rightarrow> 'a option) \<times> (('a option \<Rightarrow> 'a option) \<Rightarrow> campaign \<Rightarrow> campaign)"

definition numeric_columns :: "rat column list" where
  "numeric_columns =
     [(Clicks, Clicks_update), (Impressions, Impressions_update),
      (Engagement_Score, Engagement_Score_update),
      (Conversion_Rate, Conversion_Rate_update), (ROI, ROI_update)]"

definition categorical_columns :: "string column list" where
  "categorical_columns =
     [(Campaign_Type, Campaign_Type_update), (Channel_Used, Channel_Used_update),
      (Target_Audience, Target_Audience_update), (Location, Location_update),
      (Language, Language_update), (Customer_Segment, Customer_Segment_update)]"

subsection \<open>Column operations of pandas\<close>

definition isnull_any :: "'a option list \<Rightarrow> bool" where
  "isnull_any col = list_ex (\<lambda>x. x = None) col"

definition dropna :: "'a option list \<Rightarrow> 'a list" where
  "dropna col = List.map_filter (\<lambda>x. x) col"

text \<open>
  \<open>Series.median()\<close>: missing values are skipped; the middle value of the sorted rest,
  the mean of the two middle values when their number is even, NaN when nothing is left.
\<close>

definition median :: "rat option list \<Rightarrow> rat option" where
  "median col =
     (let xs = sort (dropna col); n = length xs
      in if n = 0 then None
         else if odd n then Some (xs ! (n div 2))
         else Some ((xs ! (n div 2 - 1) + xs ! (n div 2)) / 2))"

text \<open>\<open>fillna(v)\<close> on one value; filling with NaN changes nothing.\<close>

definition fillna :: "'a option \<Rightarrow> 'a option \<Rightarrow> 'a option" where
  "fillna v x = (case x of None \<Rightarrow> v | Some y \<Rightarrow> Some y)"

text \<open>
  \<open>drop_duplicates(subset=[key], keep='first')\<close>: a row is kept unless an earlier row
  has the same key; two missing keys count as the same key.
\<close>

fun drop_duplicates :: "('r \<Rightarrow> 'k) \<Rightarrow> 'k list \<Rightarrow> 'r list \<Rightarrow> 'r list" where
  "drop_duplicates key seen [] = []"
| "drop_duplicates key seen (r # rs) =
     (if key r \<in> set seen then drop_duplicates key seen rs
      else r # drop_duplicates key (key r # seen) rs)"

definition is_lower :: "char \<Rightarrow> bool" where
  "is_lower c = (97 \<le> (of_char c :: nat) \<and> (of_char c :: nat) \<le> 122)"

definition is_upper :: "char \<Rightarrow> bool" where
  "is_upper c = (65 \<le> (of_char c :: nat) \<and> (of_char c :: nat) \<le> 90)"

definition to_upper :: "char \<Rightarrow> char" where
  "to_upper c = (if is_lower c then char_of ((of_char c :: nat) - 32) else c)"

definition to_lower :: "char \<Rightarrow> char" where
  "to_lower c = (if is_upper c then char_of ((of_char c :: nat) + 32) else c)"

text \<open>
  \<open>str.title()\<close> on ASCII text: a letter that follows a letter is lowered, any other
  letter is raised, every other character is kept and ends the word.
\<close>

fun title_from :: "bool \<Rightarrow> string \<Rightarrow> string" where
  "title_from prev [] = []"
| "title_from prev (c # cs) =
     (if is_lower c \<or> is_upper c
      then (if prev then to_lower c else to_upper c) # title_from True cs
      else c # title_from False cs)"

definition title :: "string \<Rightarrow> string" where
  "title s = title_from False s"

text \<open>\<open>str.extract(r'(\d+)')\<close> then \<open>astype(float)\<close>: the first run of digits, NaN if none.\<close>

definition extract_digits :: "string \<Rightarrow> rat option" where
  "extract_digits s =
     (let ds = takeWhile is_digit (dropWhile (\<lambda>c. \<not> is_digit c) s)
      in if ds = [] then None else Some (of_int (digits_val ds)))"

text \<open>\<open>pd.cut\<close> with three right-closed bins \<open>(b0, b1]\<close>, \<open>(b1, b2]\<close>, \<open>(b2, b3]\<close>;
  \<open>b3 = None\<close> stands for infinity, whose bin \<open>(b2, inf]\<close> holds every number above \<open>b2\<close>.\<close>

definition cut3 :: "rat \<Rightarrow> rat \<Rightarrow> rat \<Rightarrow> rat option \<Rightarrow> string \<Rightarrow> string \<Rightarrow> string
    \<Rightarrow> rat option \<Rightarrow> string option" where
  "cut3 b0 b1 b2 b3 l1 l2 l3 v =
     (case v of None \<Rightarrow> None
      | Some x \<Rightarrow>
          if b0 < x \<and> x \<le> b1 then Some l1
          else if b1 < x \<and> x \<le> b2 then Some l2
          else if b2 < x \<and> (case b3 of None \<Rightarrow> True | Some b \<Rightarrow> x \<le> b) then Some l3
          else None)"

subsection \<open>handle_missing_values\<close>

text \<open>
  One pass of each loop: a column with a missing value is filled, with its median or
  with \<open>Unknown\<close>. The fill \<open>df[col].fillna(v, inplace=True)\<close> is taken to reach the
  frame, as the code means it to.
\<close>

definition fill_numeric :: "rat column \<Rightarrow> campaign list \<Rightarrow> campaign list" where
  "fill_numeric col df =
     (case col of (get, upd) \<Rightarrow>
        if isnull_any (map get df)
        then (let median_value = median (map get df) in map (upd (fillna median_value)) df)
        else df)"

definition fill_categorical :: "string column \<Rightarrow> campaign list \<Rightarrow> campaign list" where
  "fill_categorical col df =
     (case col of (get, upd) \<Rightarrow>
        if isnull_any (map get df) then map (upd (fillna (Some ''Unknown''))) df else df)"

definition handle_missing_values :: "campaign list \<Rightarrow> campaign list" where
  "handle_missing_values df =
     foldl (\<lambda>d col. fill_categorical col d)
       (foldl (\<lambda>d col. fill_numeric col d) df numeric_columns) categorical_columns"

subsection \<open>remove_duplicates\<close>

definition remove_duplicates :: "campaign list \<Rightarrow> campaign list" where
  "remove_duplicates df = drop_duplicates Campaign_ID [] df"

subsection \<open>normalize_categorical_values\<close>

definition normalize_categorical_values :: "campaign list \<Rightarrow> campaign list" where
  "normalize_categorical_values df =
     map (\<lambda>r. r\<lparr>Campaign_Type := map_option title (Campaign_Type r),
               Channel_Used := map_option title (Channel_Used r),
               Location := map_option title (Location r),
               Customer_Segment := map_option title (Customer_Segment r)\<rparr>) df"

subsection \<open>validate_numeric_ranges\<close>

definition negative :: "rat option \<Rightarrow> bool" where
  "negative v = (case v of None \<Rightarrow> False | Some x \<Rightarrow> x < 0)"

definition invalid_conv_rate :: "rat option \<Rightarrow> bool" where
  "invalid_conv_rate v = (case v of None \<Rightarrow> False | Some x \<Rightarrow> x < 0 \<or> x > 1)"

text \<open>
  \<open>df.loc[mask, col] = df[col].median()\<close> when the mask selects a row: the median is
  taken over the column as it is then, the values about to be replaced included.
\<close>

definition repair :: "(rat option \<Rightarrow> bool) \<Rightarrow> rat column \<Rightarrow> campaign list \<Rightarrow> campaign list" where
  "repair invalid col df =
     (case col of (get, upd) \<Rightarrow>
        if list_ex (\<lambda>r. invalid (get r)) df
        then (let m = median (map get df)
              in map (\<lambda>r. if invalid (get r) then upd (\<lambda>_. m) r else r) df)
        else df)"

definition convert_cost :: "campaign list \<Rightarrow> error + campaign list" where
  "convert_cost df =
     (if dtype_object (map Acquisition_Cost df)
      then (case cost_column (map Acquisition_Cost df) of
              Inl e \<Rightarrow> Inl e
            | Inr cs \<Rightarrow> Inr (map2 (\<lambda>r c. r\<lparr>Acquisition_Cost := c\<rparr>) df cs))
      else Inr df)"

definition repair_negatives :: "campaign list \<Rightarrow> campaign list" where
  "repair_negatives df =
     foldl (\<lambda>d col. repair negative col d) df
       [(Clicks, Clicks_update), (Impressions, Impressions_update),
        (Engagement_Score, Engagement_Score_update)]"

definition validate_numeric_ranges :: "campaign list \<Rightarrow> error + campaign list" where
  "validate_numeric_ranges df =
     (case convert_cost (repair_negatives df) of
        Inl e \<Rightarrow> Inl e
      | Inr d2 \<Rightarrow> Inr (repair invalid_conv_rate (Conversion_Rate, Conversion_Rate_update) d2))"

subsection \<open>create_derived_features\<close>

fun duration_text :: "cell \<Rightarrow> rat option" where
  "duration_text (Str s) = extract_digits s"
| "duration_text (Num x) = None"
| "duration_text (Dt d) = None"
| "duration_text Null = None"

fun duration_number :: "cell \<Rightarrow> rat option" where
  "duration_number (Str s) = None"
| "duration_number (Num x) = Some x"
| "duration_number (Dt d) = None"
| "duration_number Null = None"

text \<open>
  \<open>Clicks / Impressions\<close>. Where pandas gives an infinity (a non-zero number over zero)
  the model, which has no infinities, gives the missing value, as it does for 0/0.
\<close>

definition engagement_rate :: "rat option \<Rightarrow> rat option \<Rightarrow> rat option" where
  "engagement_rate c i =
     (case (c, i) of
        (Some x, Some y) \<Rightarrow> if y = 0 then None else Some (x / y)
      | _ \<Rightarrow> None)"

definition create_derived_features :: "campaign list \<Rightarrow> campaign list" where
  "create_derived_features df =
     (let textual = dtype_object (map Duration df)
      in map (\<lambda>r.
           let dur = (if textual then duration_text (Duration r) else duration_number (Duration r))
           in r\<lparr>Campaign_Duration := dur,
                Duration_Category := cut3 0 7 30 None ''Short'' ''Medium'' ''Long'' dur,
                Engagement_Rate := engagement_rate (Clicks r) (Impressions r),
                Month := map_option month (Date r),
                Quarter := map_option (\<lambda>d. (month d - 1) div 3 + 1) (Date r),
                Year := map_option year (Date r),
                Engagement_Category :=
                  cut3 0 3 6 (Some 10) ''Low'' ''Medium'' ''High'' (Engagement_Score r)\<rparr>) df)"

subsection \<open>clean_data\<close>

record cleaning_summary =
  initial_rows :: int
  final_rows :: int
  rows_removed :: int
  derived_features_added :: "string list"

definition clean_data :: "campaign list \<Rightarrow> error + campaign list \<times> cleaning_summary" where
  "clean_data df0 =
     (let initial = int (length df0);
          df1 = handle_missing_values df0;
          df2 = remove_duplicates df1;
          df3 = normalize_categorical_values df2
      in case validate_numeric_ranges df3 of
           Inl e \<Rightarrow> Inl e
         | Inr df4 \<Rightarrow>
             (let df5 = create_derived_features df4
              in Inr (df5,
                   \<lparr>initial_rows = initial,
                    final_rows = int (length df5),
                    rows_removed = initial - int (length df5),
                    derived_features_added =
                      [''Campaign_Duration'', ''Duration_Category'', ''Engagement_Rate'',
                       ''Month'', ''Quarter'', ''Year'', ''Engagement_Category'']\<rparr>)))"

subsection \<open>Sample rows\<close>

definition row_a :: campaign where
  "row_a = \<lparr>Campaign_ID = Some 1, Company = Some ''Innovate Industries'',
     Campaign_Type = Some ''email'', Target_Audience = Some ''Men 18-24'',
     Duration = Str ''30 days'', Channel_Used = Some ''google ads'',
     Conversion_Rate = Some (1 / 25), Acquisition_Cost = Str ''$16,174.00'',
     ROI = Some (629 / 100), Location = Some ''chicago'', Language = Some ''Spanish'',
     Clicks = Some 506, Impressions = Some 1922, Engagement_Score = Some 6,
     Customer_Segment = Some ''health & wellness'',
     Date = Some \<lparr>year = 2021, month = 1, day = 1\<rparr>,
     Campaign_Duration = None, Duration_Category = None, Engagement_Rate = None,
     Month = None, Quarter = None, Year = None, Engagement_Category = None\<rparr>"

definition row_b :: campaign where
  "row_b = row_a\<lparr>Campaign_ID := Some 2, Duration := Str ''60 days'',
     Conversion_Rate := Some (3 / 2), Acquisition_Cost := Str ''$1,000.50'',
     Clicks := Some (- 3), Engagement_Score := Some 2\<rparr>"

definition row_c :: campaign where
  "row_c = row_a\<lparr>Clicks := None\<rparr>"

definition row_d :: campaign where
  "row_d = row_a\<lparr>Acquisition_Cost := Num (- 5)\<rparr>"

definition sample_rows :: "campaign list" where
  "sample_rows = [row_a, row_b, row_c]"

definition cleaned_a :: campaign where
  "cleaned_a =
     row_a\<lparr>Campaign_Type := Some ''Email'', Channel_Used := Some ''Google Ads'',
           Location := Some ''Chicago'', Customer_Segment := Some ''Health & Wellness'',
           Acquisition_Cost := Num 16174, Campaign_Duration := Some 30,
           Duration_Category := Some ''Medium'', Engagement_Rate := Some (253 / 961),
           Month := Some 1, Quarter := Some 1, Year := Some 2021,
           Engagement_Category := Some ''Medium''\<rparr>"

definition cleaned_b :: campaign where
  "cleaned_b =
     row_b\<lparr>Campaign_Type := Some ''Email'', Channel_Used := Some ''Google Ads'',
           Location := Some ''Chicago'', Customer_Segment := Some ''Health & Wellness'',
           Conversion_Rate := Some (77 / 100), Acquisition_Cost := Num (2001 / 2),
           Clicks := Some (503 / 2), Campaign_Duration := Some 60,
           Duration_Category := Some ''Long'', Engagement_Rate := Some (503 / 3844),
           Month := Some 1, Quarter := Some 1, Year := Some 2021,
           Engagement_Category := Some ''Low''\<rparr>"

definition sample_cleaned :: "campaign list" where
  "sample_cleaned = [cleaned_a, cleaned_b]"

definition sample_summary :: cleaning_summary where
  "sample_summary =
     \<lparr>initial_rows = 3, final_rows = 2, rows_removed = 1,
      derived_features_added =
        [''Campaign_Duration'', ''Duration_Category'', ''Engagement_Rate'',
         ''Month'', ''Quarter'', ''Year'', ''Engagement_Category'']\<rparr>"

section \<open>The loader\<close>

text \<open>
  The frame that \<open>read_csv\<close> gives: the names of the columns and, for each row,
  the cell under each name.
\<close>

record frame =
  columns :: "string list"
  rows :: "(string \<Rightarrow> cell) list"

definition required_columns :: "string list" where
  "required_columns =
     [''Campaign_ID'', ''Company'', ''Campaign_Type'', ''Target_Audience'', ''Duration'',
      ''Channel_Used'', ''Conversion_Rate'', ''Acquisition_Cost'', ''ROI'', ''Location'',
      ''Language'', ''Clicks'', ''Impressions'', ''Engagement_Score'', ''Customer_Segment'',
      ''Date'']"

definition numeric_cols :: "string list" where
  "numeric_cols = [''Clicks'', ''Impressions'', ''Engagement_Score'', ''Conversion_Rate'', ''ROI'']"

definition column :: "frame \<Rightarrow> string \<Rightarrow> cell list" where
  "column df c = map (\<lambda>r. r c) (rows df)"

text \<open>\<open>df[c] = vs\<close>, with one value for each row.\<close>

definition assign :: "string \<Rightarrow> cell list \<Rightarrow> frame \<Rightarrow> frame" where
  "assign c vs df =
     df\<lparr>columns := (if c \<in> set (columns df) then columns df else columns df @ [c]),
        rows := map2 (\<lambda>r v. r(c := v)) (rows df) vs\<rparr>"

fun date_cell :: "date option \<Rightarrow> cell" where
  "date_cell None = Null"
| "date_cell (Some d) = Dt d"

fun num_cell :: "rat option \<Rightarrow> cell" where
  "num_cell None = Null"
| "num_cell (Some x) = Num x"

text \<open>
  A conversion of pandas applied to a column: it raises when it raises on some cell.
  \<open>pd.to_datetime\<close> and \<open>pd.to_numeric\<close> are parameters of the model, given by
  what they do on one cell: raise, or give a value or the missing value.
\<close>

definition convert_column :: "(cell \<Rightarrow> error + 'a) \<Rightarrow> ('a \<Rightarrow> cell) \<Rightarrow> cell list \<Rightarrow> error + cell list" where
  "convert_column conv wrap col =
     sequence (map (\<lambda>c. case conv c of Inl e \<Rightarrow> Inl e | Inr v \<Rightarrow> Inr (wrap v)) col)"

text \<open>
  \<open>validate_data\<close> returns its verdict; the frame is changed in place, and the second
  component is the frame as the call leaves it. An exception inside the \<open>try\<close> block
  leaves the assignments made before it. The guard \<open>'Acquisition_Cost' in df.columns\<close>
  holds wherever it is reached, the required columns being present.
\<close>

definition validate_data ::
    "(cell \<Rightarrow> error + date option) \<Rightarrow> (cell \<Rightarrow> error + rat option) \<Rightarrow> frame \<Rightarrow> bool \<times> frame" where
  "validate_data to_datetime to_numeric df =
     (if \<not> set required_columns \<subseteq> set (columns df) then (False, df)
      else case convert_column to_datetime date_cell (column df ''Date'') of
          Inl e \<Rightarrow> (False, df)
        | Inr dates \<Rightarrow>
            (let df1 = assign ''Date'' dates df
             in case sequence (map (\<lambda>c. convert_column to_numeric num_cell (column df1 c))
                                 numeric_cols) of
                  Inl e \<Rightarrow> (False, df1)
                | Inr cols \<Rightarrow>
                    (let df2 = fold (\<lambda>(c, vs). assign c vs) (zip numeric_cols cols) df1
                     in case cost_column (column df2 ''Acquisition_Cost'') of
                          Inl e \<Rightarrow> (False, df2)
                        | Inr costs \<Rightarrow> (True, assign ''Acquisition_Cost'' costs df2))))"

text \<open>
  \<open>load_data\<close>; the argument is what \<open>pd.read_csv\<close> gives for the path, a frame or
  an exception. \<open>None\<close> is Python's \<open>None\<close>.
\<close>

definition load_data ::
    "(cell \<Rightarrow> error + date option) \<Rightarrow> (cell \<Rightarrow> error + rat option) \<Rightarrow> error + frame
      \<Rightarrow> frame option" where
  "load_data to_datetime to_numeric read_csv =
     (case read_csv of
        Inl e \<Rightarrow> None
      | Inr df \<Rightarrow>
          (case validate_data to_datetime to_numeric df of
             (True, df') \<Rightarrow> Some df'
           | (False, df') \<Rightarrow> None))"

fun is_datetime :: "cell \<Rightarrow> bool" where
  "is_datetime (Dt d) = True"
| "is_datetime Null = True"
| "is_datetime (Str s) = False"
| "is_datetime (Num x) = False"

fun is_float :: "cell \<Rightarrow> bool" where
  "is_float (Num x) = True"
| "is_float Null = True"
| "is_float (Str s) = False"
| "is_float (Dt d) = False"

subsection \<open>Sample conversions and frames\<close>

text \<open>
  One instance of the two conversions, to run the loader on sample frames: dates written
  \<open>YYYY-MM-DD\<close>, numbers written as decimal literals.
\<close>

definition iso_date :: "string \<Rightarrow> error + date option" where
  "iso_date s =
     (let y = take 4 s; m = take 2 (drop 5 s); d = drop 8 s
      in if length s = 10 \<and> s ! 4 = CHR ''-'' \<and> s ! 7 = CHR ''-'' \<and> list_all is_digit (y @ m @ d)
         then Inr (Some \<lparr>year = digits_val y, month = nat (digits_val m), day = nat (digits_val d)\<rparr>)
         else Inl ValueError)"

fun sample_to_datetime :: "cell \<Rightarrow> error + date option" where
  "sample_to_datetime (Str s) = iso_date s"
| "sample_to_datetime (Dt d) = Inr (Some d)"
| "sample_to_datetime Null = Inr None"
| "sample_to_datetime (Num x) = Inl ValueError"

fun sample_to_numeric :: "cell \<Rightarrow> error + rat option" where
  "sample_to_numeric (Str s) = (case py_float s of Inl e \<Rightarrow> Inl e | Inr x \<Rightarrow> Inr (Some x))"
| "sample_to_numeric (Num x) = Inr (Some x)"
| "sample_to_numeric Null = Inr None"
| "sample_to_numeric (Dt d) = Inl ValueError"

definition row_of :: "(string \<times> cell) list \<Rightarrow> string \<Rightarrow> cell" where
  "row_of kvs c = (case map_of kvs c of None \<Rightarrow> Null | Some v \<Rightarrow> v)"

definition good_frame :: frame where
  "good_frame =
     \<lparr>columns = required_columns,
      rows = [row_of
        [(''Campaign_ID'', Num 1), (''Company'', Str ''Innovate Industries''),
         (''Campaign_Type'', Str ''Email''), (''Target_Audience'', Str ''Men 18-24''),
         (''Duration'', Str ''30 days''), (''Channel_Used'', Str ''Google Ads''),
         (''Conversion_Rate'', Num (1 / 25)), (''Acquisition_Cost'', Str ''$16,174.00''),
         (''ROI'', Num (629 / 100)), (''Location'', Str ''Chicago''),
         (''Language'', Str ''Spanish''), (''Clicks'', Num 506), (''Impressions'', Num 1922),
         (''Engagement_Score'', Num 6), (''Customer_Segment'', Str ''Health & Wellness''),
         (''Date'', Str ''2021-01-01'')]]\<rparr>"

definition bad_frame :: frame where
  "bad_frame =
     good_frame\<lparr>rows := map (\<lambda>r. r(''Acquisition_Cost'' := Str ''sixteen thousand'')) (rows good_frame)\<rparr>"

section \<open>The cohort analyzer\<close>

subsection \<open>Dates, periods and sorting\<close>

definition date_lt :: "date \<Rightarrow> date \<Rightarrow> bool" where
  "date_lt a b =
     (year a < year b
      \<or> (year a = year b \<and> (month a < month b \<or> (month a = month b \<and> day a < day b))))"


text \<open>\<open>dt.to_period('M')\<close>, as the number of the month counted from year 0.\<close>

definition to_period_M :: "date \<Rightarrow> int" where
  "to_period_M d = year d * 12 + int (month d) - 1"

text \<open>\<open>min\<close> and \<open>max\<close> of a column of timestamps, NaT skipped; NaT when nothing is left.\<close>

definition min_date :: "date option list \<Rightarrow> date option" where
  "min_date col =
     (case dropna col of
        [] \<Rightarrow> None
      | d # ds \<Rightarrow> Some (foldl (\<lambda>m x. if date_lt x m then x else m) d ds))"

definition max_date :: "date option list \<Rightarrow> date option" where
  "max_date col =
     (case dropna col of
        [] \<Rightarrow> None
      | d # ds \<Rightarrow> Some (foldl (\<lambda>m x. if date_lt m x then x else m) d ds))"

text \<open>Sorting by a comparison, equal keys in their order of arrival; missing keys last.\<close>

fun insert_by :: "('a \<Rightarrow> 'a \<Rightarrow> bool) \<Rightarrow> 'a \<Rightarrow> 'a list \<Rightarrow> 'a list" where
  "insert_by le x [] = [x]"
| "insert_by le x (y # ys) = (if le x y then x # y # ys else y # insert_by le x ys)"

definition sort_by :: "('a \<Rightarrow> 'a \<Rightarrow> bool) \<Rightarrow> 'a list \<Rightarrow> 'a list" where
  "sort_by le xs = foldr (insert_by le) xs []"

fun opt_lt :: "('a \<Rightarrow> 'a \<Rightarrow> bool) \<Rightarrow> 'a option \<Rightarrow> 'a option \<Rightarrow> bool" where
  "opt_lt lt (Some a) (Some b) = lt a b"
| "opt_lt lt (Some a) None = True"
| "opt_lt lt None b = False"

definition by_date_and_id :: "campaign \<Rightarrow> campaign \<Rightarrow> bool" where
  "by_date_and_id a b =
     (opt_lt date_lt (Date a) (Date b)
      \<or> (Date a = Date b \<and> \<not> opt_lt (<) (Campaign_ID b) (Campaign_ID a)))"

subsection \<open>create_cohorts\<close>

record cohort_row =
  base :: campaign
  Cohort_Month :: int
  Months_Since_First_Campaign :: int

text \<open>\<open>df.groupby('Target_Audience')['Date'].transform('min')\<close> at one row: the least
  date of the rows of the same audience; NaT for a row without audience.\<close>

definition first_date :: "campaign list \<Rightarrow> campaign \<Rightarrow> date option" where
  "first_date df r =
     (case Target_Audience r of
        None \<Rightarrow> None
      | Some a \<Rightarrow> min_date (map Date (filter (\<lambda>x. Target_Audience x = Some a) df)))"

text \<open>
  The difference of two periods is an offset, whose \<open>n\<close> is the number of months; where
  either period is NaT the difference is NaT, which has no \<open>n\<close>, and the \<open>apply\<close> raises
  \<open>AttributeError\<close>.
\<close>

definition cohort_of :: "campaign list \<Rightarrow> campaign \<Rightarrow> error + cohort_row" where
  "cohort_of df r =
     (case (Date r, first_date df r) of
        (Some d, Some f) \<Rightarrow>
          Inr \<lparr>base = r, Cohort_Month = to_period_M d,
               Months_Since_First_Campaign = to_period_M d - to_period_M f\<rparr>
      | _ \<Rightarrow> Inl AttributeError)"

definition create_cohorts :: "campaign list \<Rightarrow> error + cohort_row list" where
  "create_cohorts df0 = (let df = sort_by by_date_and_id df0 in sequence (map (cohort_of df) df))"

subsection \<open>calculate_cohort_metrics\<close>

text \<open>
  A pivot table: the sorted row labels, the sorted column labels, and the cells; a cell
  without data is \<open>None\<close> (NaN).
\<close>

record pivot =
  index :: "int list"
  pcolumns :: "int list"
  cells :: "int \<Rightarrow> int \<Rightarrow> rat option"

definition bucket :: "cohort_row list \<Rightarrow> int \<Rightarrow> int \<Rightarrow> cohort_row list" where
  "bucket df cm k = filter (\<lambda>r. Cohort_Month r = cm \<and> Months_Since_First_Campaign r = k) df"

definition nunique :: "'a option list \<Rightarrow> nat" where
  "nunique col = length (remdups (dropna col))"

definition mean :: "rat option list \<Rightarrow> rat option" where
  "mean col = (let xs = dropna col in if xs = [] then None else Some (sum_list xs / of_nat (length xs)))"

text \<open>\<open>groupby([Cohort_Month, Months_Since_First_Campaign]).agg(f)\<close> followed by the pivot.\<close>

definition pivot_of :: "(cohort_row list \<Rightarrow> rat option) \<Rightarrow> cohort_row list \<Rightarrow> pivot" where
  "pivot_of agg df =
     \<lparr>index = sort (remdups (map Cohort_Month df)),
      pcolumns = sort (remdups (map Months_Since_First_Campaign df)),
      cells = (\<lambda>cm k. if bucket df cm k = [] then None else agg (bucket df cm k))\<rparr>"

text \<open>
  \<open>m.div(m[0], axis=0)\<close>: \<open>m[0]\<close> raises \<open>KeyError\<close> without a column 0; a cell is
  divided by the cell of its row in column 0, and is NaN when either is. A zero divisor
  gives the missing value here, the model having no infinities.
\<close>

definition div_by_month_0 :: "pivot \<Rightarrow> error + pivot" where
  "div_by_month_0 m =
     (if 0 \<in> set (pcolumns m)
      then Inr (m\<lparr>cells := (\<lambda>cm k.
             case (cells m cm k, cells m cm 0) of
               (Some c, Some c0) \<Rightarrow> if c0 = 0 then None else Some (c / c0)
             | _ \<Rightarrow> None)\<rparr>)
      else Inl KeyError)"

record cohort_metrics =
  retention :: pivot
  conversion :: pivot
  roi :: pivot

definition calculate_cohort_metrics :: "cohort_row list \<Rightarrow> error + cohort_metrics" where
  "calculate_cohort_metrics df =
     (case div_by_month_0
             (pivot_of (\<lambda>rows. Some (of_nat (nunique (map (\<lambda>r. Target_Audience (base r)) rows)))) df) of
        Inl e \<Rightarrow> Inl e
      | Inr retention_matrix \<Rightarrow>
          Inr \<lparr>retention = retention_matrix,
               conversion = pivot_of (\<lambda>rows. mean (map (\<lambda>r. Conversion_Rate (base r)) rows)) df,
               roi = pivot_of (\<lambda>rows. mean (map (\<lambda>r. ROI (base r)) rows)) df\<rparr>)"

text \<open>The first two steps of \<open>run_cohort_analysis\<close> on the frame read.\<close>

definition run_cohort_analysis :: "campaign list \<Rightarrow> error + cohort_metrics" where
  "run_cohort_analysis df =
     (case create_cohorts df of
        Inl e \<Rightarrow> Inl e
      | Inr df_with_cohorts \<Rightarrow> calculate_cohort_metrics df_with_cohorts)"

text \<open>Cleaned campaigns, for the analyzers.\<close>

definition row_jan :: campaign where
  "row_jan = cleaned_a"

definition row_feb :: campaign where
  "row_feb = row_jan\<lparr>Campaign_ID := Some 2, Date := Some \<lparr>year = 2021, month = 2, day = 15\<rparr>,
     Month := Some 2\<rparr>"

definition row_mar :: campaign where
  "row_mar = row_jan\<lparr>Campaign_ID := Some 3, Target_Audience := Some ''Women 25-34'',
     Date := Some \<lparr>year = 2021, month = 2, day = 3\<rparr>, Month := Some 2\<rparr>"

section \<open>The segment analyzer: RFM\<close>

text \<open>
  \<open>pd.Timestamp.now()\<close> is an argument of the model: the day and the seconds elapsed
  in it. A \<open>Date\<close> is the midnight that begins its day.
\<close>

record timestamp =
  on_date :: date
  seconds :: int

text \<open>The number of the day, counted from 1970-01-01, in the proleptic Gregorian calendar.\<close>

definition days_from_civil :: "date \<Rightarrow> int" where
  "days_from_civil d =
     (let y = year d - (if month d \<le> 2 then 1 else 0);
          era = y div 400;
          yoe = y - era * 400;
          mp = (int (month d) + 9) mod 12;
          doy = (153 * mp + 2) div 5 + int (day d) - 1;
          doe = yoe * 365 + yoe div 4 - yoe div 100 + doy
      in era * 146097 + doe - 719468)"

text \<open>\<open>(now - d).days\<close>: the whole days in the difference, rounded down.\<close>

definition timedelta_days :: "timestamp \<Rightarrow> date \<Rightarrow> int" where
  "timedelta_days now d =
     ((days_from_civil (on_date now) - days_from_civil d) * 86400 + seconds now) div 86400"

text \<open>Rounding to the nearest integer, a tie to the even one; \<open>round(x, n)\<close>.\<close>

definition round_half_even :: "rat \<Rightarrow> int" where
  "round_half_even x =
     (let f = \<lfloor>x\<rfloor>; r = x - of_int f
      in if r < 1 / 2 then f else if 1 / 2 < r then f + 1 else if even f then f else f + 1)"

definition py_round :: "nat \<Rightarrow> rat \<Rightarrow> rat" where
  "py_round n x = of_int (round_half_even (x * 10 ^ n)) / 10 ^ n"

text \<open>The keys of a \<open>groupby\<close>: the distinct values that are not missing, sorted.\<close>

fun str_lt :: "string \<Rightarrow> string \<Rightarrow> bool" where
  "str_lt [] [] = False"
| "str_lt [] (b # bs) = True"
| "str_lt (a # as) [] = False"
| "str_lt (a # as) (b # bs) = ((of_char a :: nat) < of_char b \<or> (a = b \<and> str_lt as bs))"

definition group_keys :: "string option list \<Rightarrow> string list" where
  "group_keys col = sort_by (\<lambda>a b. \<not> str_lt b a) (remdups (dropna col))"

fun cost_number :: "cell \<Rightarrow> rat option" where
  "cost_number (Num x) = Some x"
| "cost_number (Str s) = None"
| "cost_number (Dt d) = None"
| "cost_number Null = None"

record rfm_row =
  Recency_Days :: "int option"
  Campaign_Frequency :: int
  Total_Spend :: rat
  Avg_Spend_per_Campaign :: "rat option"

text \<open>
  One row of the RFM table, for the rows \<open>g\<close> of one audience. The sum skips missing
  costs. A frequency of zero (no row of the group has a \<open>Campaign_ID\<close>) makes the
  average an infinity or NaN, here the missing value.
\<close>

definition rfm_of :: "timestamp \<Rightarrow> campaign list \<Rightarrow> rfm_row" where
  "rfm_of now g =
     (let recency = map_option (timedelta_days now) (max_date (map Date g));
          frequency = int (length (dropna (map Campaign_ID g)));
          spend = py_round 2 (sum_list (dropna (map (\<lambda>r. cost_number (Acquisition_Cost r)) g)))
      in \<lparr>Recency_Days = recency, Campaign_Frequency = frequency, Total_Spend = spend,
          Avg_Spend_per_Campaign =
            (if frequency = 0 then None else Some (py_round 2 (spend / of_int frequency)))\<rparr>)"

text \<open>
  \<open>calculate_rfm_metrics\<close>. Over a textual \<open>Acquisition_Cost\<close> the sum is a text, and
  dividing it by the frequency raises \<open>TypeError\<close>.
\<close>

definition calculate_rfm_metrics :: "timestamp \<Rightarrow> campaign list \<Rightarrow> error + (string \<times> rfm_row) list" where
  "calculate_rfm_metrics now df =
     (if dtype_object (map Acquisition_Cost df) then Inl TypeError
      else Inr (map (\<lambda>a. (a, rfm_of now (filter (\<lambda>r. Target_Audience r = Some a) df)))
                  (group_keys (map Target_Audience df))))"

definition noon_2021_03_01 :: timestamp where
  "noon_2021_03_01 = \<lparr>on_date = \<lparr>year = 2021, month = 3, day = 1\<rparr>, seconds = 43200\<rparr>"

definition noon_2021_03_02 :: timestamp where
  "noon_2021_03_02 = \<lparr>on_date = \<lparr>year = 2021, month = 3, day = 2\<rparr>, seconds = 43200\<rparr>"

section \<open>The channel analyzer\<close>

subsection \<open>perform_statistical_analysis\<close>




definition less_than :: "rat option \<Rightarrow> rat option \<Rightarrow> bool" where
  "less_than a b = (case (a, b) of (Some x, Some y) \<Rightarrow> x < y | _ \<Rightarrow> False)"



subsection \<open>calculate_channel_recommendations\<close>

text \<open>The decimal digits of a number that is not negative.\<close>

function digits_str :: "int \<Rightarrow> string" where
  "digits_str n =
     (if n < 10 then [char_of (48 + n)] else digits_str (n div 10) @ [char_of (48 + n mod 10)])"
  by pat_completeness auto
termination
  by (relation "measure nat") auto

declare digits_str.simps [simp del]

text \<open>The formats \<open>.2f\<close> and \<open>.2%\<close> of a float; NaN prints as \<open>nan\<close>.\<close>

definition fixed2 :: "rat \<Rightarrow> string" where
  "fixed2 x =
     (let h = round_half_even (\<bar>x\<bar> * 100)
      in (if x < 0 then ''-'' else '''') @ digits_str (h div 100) @ ''.''
         @ digits_str (h mod 100 div 10) @ digits_str (h mod 10))"

definition format_2f :: "rat option \<Rightarrow> string" where
  "format_2f v = (case v of None \<Rightarrow> ''nan'' | Some x \<Rightarrow> fixed2 x)"

definition format_2pct :: "rat option \<Rightarrow> string" where
  "format_2pct v = (case v of None \<Rightarrow> ''nan%'' | Some x \<Rightarrow> fixed2 (x * 100) @ ''%'')"

definition high_roi_text :: "rat option \<Rightarrow> string" where
  "high_roi_text v =
     ''High ROI performer (ROI: '' @ format_2f v @ ''). Consider increasing budget allocation.''"

definition low_roi_text :: "rat option \<Rightarrow> string" where
  "low_roi_text v =
     ''Below average ROI (ROI: '' @ format_2f v @ ''). Review campaign strategy and targeting.''"

definition low_conversion_text :: "rat option \<Rightarrow> string" where
  "low_conversion_text v =
     ''Below average conversion rate ('' @ format_2pct v
     @ ''). Review targeting and creative strategy.''"

definition high_cost_text :: "rat option \<Rightarrow> string" where
  "high_cost_text v =
     ''High acquisition cost ($'' @ format_2f v @ ''). Optimize bidding strategy and targeting.''"

definition low_engagement_text :: "rat option \<Rightarrow> string" where
  "low_engagement_text v =
     ''Low engagement score ('' @ format_2f v
     @ ''). Improve content quality and engagement factors.''"

definition low_engagement_rate_text :: "rat option \<Rightarrow> string" where
  "low_engagement_rate_text v =
     ''Low engagement rate ('' @ format_2pct v
     @ ''). Review content strategy and audience targeting.''"

definition cost_mean :: "campaign list \<Rightarrow> rat option" where
  "cost_mean df = mean (map (\<lambda>r. cost_number (Acquisition_Cost r)) df)"

text \<open>
  \<open>df[df['Channel_Used'] == channel]\<close>; a missing channel selects no row, NaN being
  unequal to itself. Then the body of the loop for one channel: \<open>recs\<close> is
  \<open>recommendations[channel]\<close>, to which each step appends.
\<close>

definition channel_rows :: "campaign list \<Rightarrow> string option \<Rightarrow> campaign list" where
  "channel_rows df channel =
     (case channel of None \<Rightarrow> [] | Some c \<Rightarrow> filter (\<lambda>r. Channel_Used r = Some c) df)"

definition recommend :: "campaign list \<Rightarrow> string option \<Rightarrow> string list" where
  "recommend df channel =
     (let channel_data = channel_rows df channel;
          recs = [];
          avg_roi = mean (map ROI channel_data);
          recs = (if less_than (mean (map ROI df)) avg_roi
                  then recs @ [high_roi_text avg_roi] else recs @ [low_roi_text avg_roi]);
          avg_conv_rate = mean (map Conversion_Rate channel_data);
          recs = (if less_than avg_conv_rate (mean (map Conversion_Rate df))
                  then recs @ [low_conversion_text avg_conv_rate] else recs);
          avg_cost = cost_mean channel_data;
          recs = (if less_than (cost_mean df) avg_cost
                  then recs @ [high_cost_text avg_cost] else recs);
          avg_engagement = mean (map Engagement_Score channel_data);
          recs = (if less_than avg_engagement (mean (map Engagement_Score df))
                  then recs @ [low_engagement_text avg_engagement] else recs);
          avg_engagement_rate = mean (map Engagement_Rate channel_data);
          recs = (if less_than avg_engagement_rate (mean (map Engagement_Rate df))
                  then recs @ [low_engagement_rate_text avg_engagement_rate] else recs)
      in recs)"

text \<open>
  \<open>calculate_channel_recommendations\<close>: the channels in their order of first
  appearance. The mean of a textual \<open>Acquisition_Cost\<close> raises \<open>TypeError\<close>.
\<close>

definition calculate_channel_recommendations ::
    "campaign list \<Rightarrow> error + (string option \<times> string list) list" where
  "calculate_channel_recommendations df =
     (if dtype_object (map Acquisition_Cost df) then Inl TypeError
      else Inr (map (\<lambda>channel. (channel, recommend df channel))
                  (drop_duplicates (\<lambda>c. c) [] (map Channel_Used df))))"

subsection \<open>Sample data of the analyzers\<close>

definition cohort_sample :: "campaign list" where
  "cohort_sample = [row_jan, row_feb, row_mar]"

definition sample_rfm :: "(string \<times> rfm_row) list" where
  "sample_rfm =
     [(''Men 18-24'',
       \<lparr>Recency_Days = Some 14, Campaign_Frequency = 2, Total_Spend = 32348,
        Avg_Spend_per_Campaign = Some 16174\<rparr>),
      (''Women 25-34'',
       \<lparr>Recency_Days = Some 26, Campaign_Frequency = 1, Total_Spend = 16174,
        Avg_Spend_per_Campaign = Some 16174\<rparr>)]"

definition month_0_cells :: "pivot \<Rightarrow> (int \<times> rat option) list" where
  "month_0_cells m = map (\<lambda>cm. (cm, cells m cm 0)) (index m)"





subsection \<open>Sample results of the analyzers\<close>





definition row_youtube :: campaign where
  "row_youtube = row_feb\<lparr>Channel_Used := Some ''YouTube'', ROI := Some 7,
     Acquisition_Cost := Num 20000, Engagement_Rate := Some (1 / 3)\<rparr>"

definition channel_sample :: "campaign list" where
  "channel_sample = [row_jan, row_youtube, row_jan\<lparr>Engagement_Rate := Some (1 / 7)\<rparr>]"

definition sample_recommendations :: "(string option \<times> string list) list" where
  "sample_recommendations =
     [(Some ''Google Ads'',
       [''Below average ROI (ROI: 6.29). Review campaign strategy and targeting.'',
        ''Low engagement rate (20.31%). Review content strategy and audience targeting.'']),
      (Some ''YouTube'',
       [''High ROI performer (ROI: 7.00). Consider increasing budget allocation.'',
        ''High acquisition cost ($20000.00). Optimize bidding strategy and targeting.''])]"

section \<open>Currency text\<close>

text \<open>
  C7. The currency text \<open>$16,174.00\<close>, with the currency sign and the thousands
  separators removed and the rest read as a float, is the number 16174.00; a column
  holding that one cell is converted to that one number.
\<close>

theorem currency_parse_16174:
  "currency_to_float ''$16,174.00'' = Inr (16174.00 :: rat)
   \<and> cost_column [Str ''$16,174.00''] = Inr [Num 16174]"
  by (simp add: currency_to_float_def cost_column_def dtype_object_def py_float_def
      str_replace_empty_def strip_def is_space_def is_digit_def digits_val_def digit_val_def
      pow10_def)

section \<open>The cleaner: auxiliary facts\<close>

lemma drop_duplicates_keys:
  "distinct (map key (drop_duplicates key seen rs))
   \<and> set (map key (drop_duplicates key seen rs)) \<inter> set seen = {}"
  by (induction rs arbitrary: seen) (auto, fastforce+)

lemma drop_duplicates_same:
  "distinct (map key rs) \<Longrightarrow> set (map key rs) \<inter> set seen = {}
   \<Longrightarrow> drop_duplicates key seen rs = rs"
  by (induction rs arbitrary: seen) auto

lemma sequence_Inr: "sequence xs = Inr vs \<Longrightarrow> xs = map Inr vs"
  by (induction xs arbitrary: vs) (auto split: sum.splits)

lemma sequence_map_Inr: "sequence (map Inr vs) = Inr vs"
  by (induction vs) auto

lemma repair_eq:
  "repair bad (get, upd) df =
     map (\<lambda>r. if bad (get r) then upd (\<lambda>_. median (map get df)) r else r) df"
proof (cases "list_ex (\<lambda>r. bad (get r)) df")
  case True
  then show ?thesis by (simp add: repair_def)
next
  case False
  then have "\<forall>r\<in>set df. \<not> bad (get r)" by (simp add: list_ex_iff)
  then have "map (\<lambda>r. if bad (get r) then upd (\<lambda>_. median (map get df)) r else r) df = df"
    by (simp add: map_idI)
  with False show ?thesis by (simp add: repair_def)
qed

lemma repair_other:
  assumes "\<And>f r. g (upd f r) = g r"
  shows "map g (repair bad (get, upd) df) = map g df"
  by (simp add: repair_eq o_def assms if_distrib [of g])

lemma repair_own:
  assumes "\<And>f r. get (upd f r) = f (get r)"
  shows "map get (repair bad (get, upd) df) =
     map (\<lambda>r. if bad (get r) then median (map get df) else get r) df"
  by (simp add: repair_eq o_def assms if_distrib [of get])

lemma repair_length: "length (repair bad col df) = length df"
  by (cases col) (simp add: repair_eq)

lemma repair_negatives_length: "length (repair_negatives df) = length df"
  by (simp add: repair_negatives_def repair_length)

lemma repair_negatives_Clicks:
  "map Clicks (repair_negatives df) =
     map (\<lambda>r. if negative (Clicks r) then median (map Clicks df) else Clicks r) df"
  by (simp add: repair_negatives_def repair_other repair_own)

lemma repair_negatives_Impressions:
  "map Impressions (repair_negatives df) =
     map (\<lambda>r. if negative (Impressions r) then median (map Impressions df) else Impressions r) df"
  by (simp add: repair_negatives_def repair_other repair_own)

lemma repair_negatives_Engagement_Score:
  "map Engagement_Score (repair_negatives df) =
     map (\<lambda>r. if negative (Engagement_Score r) then median (map Engagement_Score df)
              else Engagement_Score r) df"
  by (simp add: repair_negatives_def repair_other repair_own)

lemma repair_negatives_other:
  "map Conversion_Rate (repair_negatives df) = map Conversion_Rate df"
  "map Acquisition_Cost (repair_negatives df) = map Acquisition_Cost df"
  "map Campaign_ID (repair_negatives df) = map Campaign_ID df"
  by (simp_all add: repair_negatives_def repair_other)

lemma sequence_length: "sequence xs = Inr vs \<Longrightarrow> length vs = length xs"
  by (drule sequence_Inr) simp

lemma cost_cell_not_str: "cost_cell c = Inr c' \<Longrightarrow> \<not> is_str c'"
  by (cases c) (auto split: sum.splits)

lemma sequence_cost_not_object:
  "sequence (map cost_cell col) = Inr cs \<Longrightarrow> \<not> dtype_object cs"
proof (induction col arbitrary: cs)
  case Nil
  then show ?case by (simp add: dtype_object_def)
next
  case (Cons c col)
  then show ?case
    by (auto simp: dtype_object_def cost_cell_not_str split: sum.splits)
qed

lemma map2_update_other:
  assumes "\<And>r c. g (r\<lparr>Acquisition_Cost := c\<rparr>) = g r" and "length cs = length df"
  shows "map g (map2 (\<lambda>r c. r\<lparr>Acquisition_Cost := c\<rparr>) df cs) = map g df"
  using assms(2) by (induction df cs rule: list_induct2') (simp_all add: assms(1))

lemma map2_update_cost:
  "length cs = length df \<Longrightarrow>
   map Acquisition_Cost (map2 (\<lambda>r c. r\<lparr>Acquisition_Cost := c\<rparr>) df cs) = cs"
  by (induction df cs rule: list_induct2') simp_all

lemma convert_cost_cases:
  assumes "convert_cost df = Inr d"
  obtains (numeric) "\<not> dtype_object (map Acquisition_Cost df)" and "d = df"
  | (textual) cs where "dtype_object (map Acquisition_Cost df)"
      and "sequence (map cost_cell (map Acquisition_Cost df)) = Inr cs"
      and "length cs = length df"
      and "d = map2 (\<lambda>r c. r\<lparr>Acquisition_Cost := c\<rparr>) df cs"
proof (cases "dtype_object (map Acquisition_Cost df)")
  case False
  with assms have "d = df" by (simp add: convert_cost_def)
  with False show ?thesis by (rule numeric)
next
  case True
  with assms obtain cs where cs: "sequence (map cost_cell (map Acquisition_Cost df)) = Inr cs"
    and d: "d = map2 (\<lambda>r c. r\<lparr>Acquisition_Cost := c\<rparr>) df cs"
    by (auto simp: convert_cost_def cost_column_def split: sum.splits)
  from cs have len: "length cs = length df" by (drule_tac sequence_length) simp
  from True cs len d show ?thesis by (rule textual)
qed

lemma convert_cost_length: "convert_cost df = Inr d \<Longrightarrow> length d = length df"
  by (erule convert_cost_cases) simp_all

lemma convert_cost_other:
  assumes "convert_cost df = Inr d" and "\<And>r c. g (r\<lparr>Acquisition_Cost := c\<rparr>) = g r"
  shows "map g d = map g df"
  using assms(1)
proof (cases rule: convert_cost_cases)
  case numeric
  then show ?thesis by simp
next
  case (textual cs)
  then show ?thesis using map2_update_other [of g cs df] assms(2) by simp
qed

lemma convert_cost_column:
  assumes "convert_cost df = Inr d"
  shows "(dtype_object (map Acquisition_Cost df) \<longrightarrow>
            cost_column (map Acquisition_Cost df) = Inr (map Acquisition_Cost d))
         \<and> (\<not> dtype_object (map Acquisition_Cost df) \<longrightarrow> d = df)"
  using assms
proof (cases rule: convert_cost_cases)
  case numeric
  then show ?thesis by simp
next
  case (textual cs)
  then show ?thesis using map2_update_cost [of cs df] by (simp add: cost_column_def)
qed

lemma convert_cost_not_object:
  assumes "convert_cost df = Inr d"
  shows "\<not> dtype_object (map Acquisition_Cost d)"
  using assms
proof (cases rule: convert_cost_cases)
  case numeric
  then show ?thesis by simp
next
  case (textual cs)
  then show ?thesis
    using map2_update_cost [of cs df] sequence_cost_not_object [of "map Acquisition_Cost df" cs]
    by simp
qed

lemma convert_cost_numeric:
  "\<not> dtype_object (map Acquisition_Cost df) \<Longrightarrow> convert_cost df = Inr df"
  by (simp add: convert_cost_def)

lemma fill_numeric_length: "length (fill_numeric col df) = length df"
  by (cases col) (simp add: fill_numeric_def Let_def)

lemma fill_categorical_length: "length (fill_categorical col df) = length df"
  by (cases col) (simp add: fill_categorical_def)

lemma fill_numeric_other:
  assumes "\<And>f r. g (upd f r) = g r"
  shows "map g (fill_numeric (get, upd) df) = map g df"
  by (simp add: fill_numeric_def Let_def o_def assms)

lemma fill_categorical_other:
  assumes "\<And>f r. g (upd f r) = g r"
  shows "map g (fill_categorical (get, upd) df) = map g df"
  by (simp add: fill_categorical_def o_def assms)

lemma handle_missing_values_length: "length (handle_missing_values df) = length df"
  by (simp add: handle_missing_values_def numeric_columns_def categorical_columns_def
      fill_numeric_length fill_categorical_length)

lemma handle_missing_values_other:
  "map Campaign_ID (handle_missing_values df) = map Campaign_ID df"
  "map Acquisition_Cost (handle_missing_values df) = map Acquisition_Cost df"
  by (simp_all add: handle_missing_values_def numeric_columns_def categorical_columns_def
      fill_numeric_other fill_categorical_other)

lemma normalize_categorical_values_length:
  "length (normalize_categorical_values df) = length df"
  by (simp add: normalize_categorical_values_def)

lemma normalize_categorical_values_other:
  "map Campaign_ID (normalize_categorical_values df) = map Campaign_ID df"
  "map Acquisition_Cost (normalize_categorical_values df) = map Acquisition_Cost df"
  "map Clicks (normalize_categorical_values df) = map Clicks df"
  "map Impressions (normalize_categorical_values df) = map Impressions df"
  "map Engagement_Score (normalize_categorical_values df) = map Engagement_Score df"
  "map Conversion_Rate (normalize_categorical_values df) = map Conversion_Rate df"
  by (simp_all add: normalize_categorical_values_def o_def)

lemma create_derived_features_length: "length (create_derived_features df) = length df"
  by (simp add: create_derived_features_def Let_def)

lemma create_derived_features_other:
  "map Campaign_ID (create_derived_features df) = map Campaign_ID df"
  "map Acquisition_Cost (create_derived_features df) = map Acquisition_Cost df"
  "map Clicks (create_derived_features df) = map Clicks df"
  "map Impressions (create_derived_features df) = map Impressions df"
  "map Engagement_Score (create_derived_features df) = map Engagement_Score df"
  "map Conversion_Rate (create_derived_features df) = map Conversion_Rate df"
  by (simp_all add: create_derived_features_def Let_def o_def)

lemma remove_duplicates_distinct: "distinct (map Campaign_ID (remove_duplicates df))"
  using drop_duplicates_keys [of Campaign_ID "[]" df] by (simp add: remove_duplicates_def)

lemma remove_duplicates_same:
  "distinct (map Campaign_ID df) \<Longrightarrow> remove_duplicates df = df"
  by (simp add: remove_duplicates_def drop_duplicates_same)

lemma validate_numeric_ranges_cases:
  assumes "validate_numeric_ranges df = Inr d"
  obtains d2 where "convert_cost (repair_negatives df) = Inr d2"
    and "d = repair invalid_conv_rate (Conversion_Rate, Conversion_Rate_update) d2"
  using assms by (auto simp: validate_numeric_ranges_def split: sum.splits)

lemma validate_numeric_ranges_ids:
  assumes "validate_numeric_ranges df = Inr d"
  shows "map Campaign_ID d = map Campaign_ID df"
  using assms
proof (cases rule: validate_numeric_ranges_cases)
  case (1 d2)
  have "map Campaign_ID d = map Campaign_ID d2"
    using 1(2) by (simp add: repair_other)
  also have "\<dots> = map Campaign_ID (repair_negatives df)"
    using 1(1) by (rule convert_cost_other) simp
  finally show ?thesis by (simp add: repair_negatives_other)
qed

lemma validate_numeric_ranges_not_object:
  assumes "validate_numeric_ranges df = Inr d"
  shows "\<not> dtype_object (map Acquisition_Cost d)"
  using assms
proof (cases rule: validate_numeric_ranges_cases)
  case (1 d2)
  have "map Acquisition_Cost d = map Acquisition_Cost d2"
    using 1(2) by (simp add: repair_other)
  with convert_cost_not_object [OF 1(1)] show ?thesis by simp
qed

lemma validate_numeric_ranges_numeric:
  assumes "\<not> dtype_object (map Acquisition_Cost df)"
  shows "validate_numeric_ranges df =
     Inr (repair invalid_conv_rate (Conversion_Rate, Conversion_Rate_update) (repair_negatives df))"
  using assms
  by (simp add: validate_numeric_ranges_def convert_cost_numeric repair_negatives_other)

lemma clean_data_cases:
  assumes "clean_data df = Inr (out, s)"
  obtains d4 where
    "validate_numeric_ranges (normalize_categorical_values
        (remove_duplicates (handle_missing_values df))) = Inr d4"
    and "out = create_derived_features d4"
    and "initial_rows s = int (length df)"
    and "final_rows s = int (length out)"
    and "rows_removed s = int (length df) - int (length out)"
  using assms by (auto simp: clean_data_def Let_def split: sum.splits)

lemma clean_data_ids:
  assumes "clean_data df = Inr (out, s)"
  shows "map Campaign_ID out = map Campaign_ID (remove_duplicates (handle_missing_values df))"
  using assms
proof (cases rule: clean_data_cases)
  case (1 d4)
  show ?thesis
    using validate_numeric_ranges_ids [OF 1(1)] 1(2)
    by (simp add: create_derived_features_other normalize_categorical_values_other)
qed

lemma clean_data_not_object:
  assumes "clean_data df = Inr (out, s)"
  shows "\<not> dtype_object (map Acquisition_Cost out)"
  using assms
proof (cases rule: clean_data_cases)
  case (1 d4)
  show ?thesis
    using validate_numeric_ranges_not_object [OF 1(1)] 1(2)
    by (simp add: create_derived_features_other)
qed

lemma sample_clean: "clean_data sample_rows = Inr (sample_cleaned, sample_summary)"
  by code_simp

section \<open>Deduplication\<close>

text \<open>
  C4. Cleaning a frame that \<open>clean_data\<close> has returned succeeds and removes no row:
  the second run starts from the first run's final count, ends on the same count and
  reports zero rows removed, and its deduplication step leaves the frame as it is.
\<close>

theorem clean_data_twice:
  assumes "clean_data df = Inr (out, s)"
  shows "\<exists>out2 s2. clean_data out = Inr (out2, s2)
           \<and> initial_rows s2 = final_rows s
           \<and> final_rows s2 = initial_rows s2
           \<and> rows_removed s2 = 0
           \<and> remove_duplicates out = out"
proof -
  have ids: "distinct (map Campaign_ID out)"
    using clean_data_ids [OF assms] remove_duplicates_distinct by simp
  then have same: "remove_duplicates out = out"
    by (rule remove_duplicates_same)
  let ?d1 = "handle_missing_values out"
  have "distinct (map Campaign_ID ?d1)"
    using ids by (simp add: handle_missing_values_other)
  then have d2: "remove_duplicates ?d1 = ?d1"
    by (rule remove_duplicates_same)
  let ?d3 = "normalize_categorical_values ?d1"
  have "\<not> dtype_object (map Acquisition_Cost ?d3)"
    using clean_data_not_object [OF assms]
    by (simp add: normalize_categorical_values_other handle_missing_values_other)
  then have v: "validate_numeric_ranges ?d3 =
     Inr (repair invalid_conv_rate (Conversion_Rate, Conversion_Rate_update) (repair_negatives ?d3))"
    by (rule validate_numeric_ranges_numeric)
  have len: "length (create_derived_features
      (repair invalid_conv_rate (Conversion_Rate, Conversion_Rate_update) (repair_negatives ?d3)))
      = length out"
    by (simp add: create_derived_features_length repair_length repair_negatives_length
        normalize_categorical_values_length handle_missing_values_length)
  have fin: "final_rows s = int (length out)"
    using assms by (auto elim: clean_data_cases)
  show ?thesis
    using d2 v len fin same by (simp add: clean_data_def Let_def)
qed

theorem clean_data_twice_witness:
  "clean_data sample_rows = Inr (sample_cleaned, sample_summary)
   \<and> (\<exists>out2 s2. clean_data sample_cleaned = Inr (out2, s2)
           \<and> initial_rows s2 = final_rows sample_summary
           \<and> final_rows s2 = initial_rows s2
           \<and> rows_removed s2 = 0
           \<and> remove_duplicates sample_cleaned = sample_cleaned)"
  by (intro conjI sample_clean clean_data_twice [OF sample_clean])

section \<open>Numeric ranges\<close>

text \<open>
  C1, as the code has it. Let \<open>d\<close> be the frame after imputation and deduplication.
  In the cleaned frame each value of \<open>Clicks\<close>, \<open>Impressions\<close> and
  \<open>Engagement_Score\<close> is the value in \<open>d\<close> unless that is negative, and then the
  median of the column in \<open>d\<close>; each \<open>Conversion_Rate\<close> is the value in \<open>d\<close> unless
  that is below 0 or above 1, and then the median of the column in \<open>d\<close>.
  \<open>Acquisition_Cost\<close> is converted from text when the column is textual and is
  otherwise kept; no bound is put on it.
\<close>

theorem clean_data_range_repair:
  assumes "clean_data df = Inr (out, s)"
    and "d = remove_duplicates (handle_missing_values df)"
  shows "map Clicks out =
           map (\<lambda>r. if negative (Clicks r) then median (map Clicks d) else Clicks r) d
       \<and> map Impressions out =
           map (\<lambda>r. if negative (Impressions r) then median (map Impressions d)
                    else Impressions r) d
       \<and> map Engagement_Score out =
           map (\<lambda>r. if negative (Engagement_Score r) then median (map Engagement_Score d)
                    else Engagement_Score r) d
       \<and> map Conversion_Rate out =
           map (\<lambda>r. if invalid_conv_rate (Conversion_Rate r) then median (map Conversion_Rate d)
                    else Conversion_Rate r) d
       \<and> (if dtype_object (map Acquisition_Cost d)
          then cost_column (map Acquisition_Cost d) = Inr (map Acquisition_Cost out)
          else map Acquisition_Cost out = map Acquisition_Cost d)"
  using assms(1)
proof (cases rule: clean_data_cases)
  case (1 d4)
  let ?n = "normalize_categorical_values d"
  from 1(1) assms(2) have v: "validate_numeric_ranges ?n = Inr d4" by simp
  from v obtain d2 where c: "convert_cost (repair_negatives ?n) = Inr d2"
    and d4: "d4 = repair invalid_conv_rate (Conversion_Rate, Conversion_Rate_update) d2"
    by (rule validate_numeric_ranges_cases)
  have "map Clicks out = map Clicks d2"
    using 1(2) d4 by (simp add: create_derived_features_other repair_other)
  also have "\<dots> = map Clicks (repair_negatives ?n)"
    using c by (rule convert_cost_other) simp
  finally have clicks: "map Clicks out =
      map (\<lambda>r. if negative (Clicks r) then median (map Clicks d) else Clicks r) d"
    by (simp add: repair_negatives_Clicks normalize_categorical_values_other)
      (simp add: normalize_categorical_values_def o_def)
  have "map Impressions out = map Impressions d2"
    using 1(2) d4 by (simp add: create_derived_features_other repair_other)
  also have "\<dots> = map Impressions (repair_negatives ?n)"
    using c by (rule convert_cost_other) simp
  finally have impressions: "map Impressions out =
      map (\<lambda>r. if negative (Impressions r) then median (map Impressions d)
               else Impressions r) d"
    by (simp add: repair_negatives_Impressions normalize_categorical_values_other)
      (simp add: normalize_categorical_values_def o_def)
  have "map Engagement_Score out = map Engagement_Score d2"
    using 1(2) d4 by (simp add: create_derived_features_other repair_other)
  also have "\<dots> = map Engagement_Score (repair_negatives ?n)"
    using c by (rule convert_cost_other) simp
  finally have score: "map Engagement_Score out =
      map (\<lambda>r. if negative (Engagement_Score r) then median (map Engagement_Score d)
               else Engagement_Score r) d"
    by (simp add: repair_negatives_Engagement_Score normalize_categorical_values_other)
      (simp add: normalize_categorical_values_def o_def)
  have cr2: "map Conversion_Rate d2 = map Conversion_Rate d"
    using convert_cost_other [OF c, of Conversion_Rate]
    by (simp add: repair_negatives_other normalize_categorical_values_other)
  have "map Conversion_Rate out = map Conversion_Rate d4"
    using 1(2) by (simp add: create_derived_features_other)
  also have "\<dots> = map (\<lambda>r. if invalid_conv_rate (Conversion_Rate r)
                            then median (map Conversion_Rate d2) else Conversion_Rate r) d2"
    using d4 by (simp add: repair_own)
  also have "\<dots> = map (\<lambda>x. if invalid_conv_rate x then median (map Conversion_Rate d2) else x)
                      (map Conversion_Rate d2)"
    by (simp add: o_def)
  also have "\<dots> = map (\<lambda>r. if invalid_conv_rate (Conversion_Rate r)
                            then median (map Conversion_Rate d) else Conversion_Rate r) d"
    unfolding cr2 by (simp add: o_def)
  finally have rate: "map Conversion_Rate out =
      map (\<lambda>r. if invalid_conv_rate (Conversion_Rate r) then median (map Conversion_Rate d)
               else Conversion_Rate r) d" .
  have cost_in: "map Acquisition_Cost (repair_negatives ?n) = map Acquisition_Cost d"
    by (simp add: repair_negatives_other normalize_categorical_values_other)
  have cost_out: "map Acquisition_Cost out = map Acquisition_Cost d2"
    using 1(2) d4 by (simp add: create_derived_features_other repair_other)
  have cost: "if dtype_object (map Acquisition_Cost d)
          then cost_column (map Acquisition_Cost d) = Inr (map Acquisition_Cost out)
          else map Acquisition_Cost out = map Acquisition_Cost d"
    using convert_cost_column [OF c] cost_in cost_out by auto
  from clicks impressions score rate cost show ?thesis by blast
qed

theorem clean_data_range_repair_witness:
  "clean_data sample_rows = Inr (sample_cleaned, sample_summary)
   \<and> (map Clicks sample_cleaned =
           map (\<lambda>r. if negative (Clicks r)
                    then median (map Clicks (remove_duplicates (handle_missing_values sample_rows)))
                    else Clicks r) (remove_duplicates (handle_missing_values sample_rows))
       \<and> map Impressions sample_cleaned =
           map (\<lambda>r. if negative (Impressions r)
                    then median (map Impressions (remove_duplicates (handle_missing_values sample_rows)))
                    else Impressions r) (remove_duplicates (handle_missing_values sample_rows))
       \<and> map Engagement_Score sample_cleaned =
           map (\<lambda>r. if negative (Engagement_Score r)
                    then median (map Engagement_Score
                           (remove_duplicates (handle_missing_values sample_rows)))
                    else Engagement_Score r) (remove_duplicates (handle_missing_values sample_rows))
       \<and> map Conversion_Rate sample_cleaned =
           map (\<lambda>r. if invalid_conv_rate (Conversion_Rate r)
                    then median (map Conversion_Rate
                           (remove_duplicates (handle_missing_values sample_rows)))
                    else Conversion_Rate r) (remove_duplicates (handle_missing_values sample_rows))
       \<and> (if dtype_object (map Acquisition_Cost
                (remove_duplicates (handle_missing_values sample_rows)))
          then cost_column (map Acquisition_Cost
                 (remove_duplicates (handle_missing_values sample_rows)))
               = Inr (map Acquisition_Cost sample_cleaned)
          else map Acquisition_Cost sample_cleaned =
               map Acquisition_Cost (remove_duplicates (handle_missing_values sample_rows))))"
  by (intro conjI sample_clean clean_data_range_repair [OF sample_clean refl])

text \<open>
  A frame of one row whose cost is the number \<open>-5\<close> and whose other values are in
  range is cleaned without error, and the cleaned row still has the cost \<open>-5\<close>.
\<close>

theorem clean_data_negative_cost_counterexample:
  "map_sum id (map Acquisition_Cost \<circ> fst) (clean_data [row_d]) = Inr [Num (- 5)]
   \<and> \<not> (0 :: rat) \<le> - 5"
  by code_simp

section \<open>The loader: auxiliary facts\<close>

lemma sequence_isl:
  assumes "\<exists>x\<in>set xs. isl x"
  shows "isl (sequence xs)"
proof (rule ccontr)
  assume "\<not> isl (sequence xs)"
  then obtain vs where "sequence xs = Inr vs" by (cases "sequence xs") auto
  then have "xs = map Inr vs" by (rule sequence_Inr)
  with assms show False by auto
qed

lemma sequence_Inr_iff: "sequence xs = Inr vs \<longleftrightarrow> xs = map Inr vs"
  by (auto dest: sequence_Inr simp: sequence_map_Inr)

lemma convert_column_isl:
  assumes "\<exists>c\<in>set col. isl (conv c)"
  shows "isl (convert_column conv wrap col)"
proof -
  from assms obtain c where "c \<in> set col" and "isl (conv c)" by blast
  then have "\<exists>x\<in>set (map (\<lambda>c. case conv c of Inl e \<Rightarrow> Inl e | Inr v \<Rightarrow> Inr (wrap v)) col). isl x"
    by (auto simp: isl_def intro!: bexI [of _ c])
  then show ?thesis unfolding convert_column_def by (rule sequence_isl)
qed

lemma convert_column_Inr:
  assumes "convert_column conv wrap col = Inr vs"
  shows "list_all2 (\<lambda>c v. \<exists>x. conv c = Inr x \<and> v = wrap x) col vs"
  using assms unfolding convert_column_def sequence_Inr_iff
proof (induction col arbitrary: vs)
  case Nil
  then show ?case by simp
next
  case (Cons c col)
  then obtain v vs' where vs: "vs = v # vs'" by (cases vs) auto
  with Cons.prems
  have h: "(case conv c of Inl e \<Rightarrow> Inl e | Inr v \<Rightarrow> Inr (wrap v)) = Inr v"
    and t: "map (\<lambda>c. case conv c of Inl e \<Rightarrow> Inl e | Inr v \<Rightarrow> Inr (wrap v)) col = map Inr vs'"
    by simp_all
  from h obtain x where "conv c = Inr x" and "v = wrap x"
    by (cases "conv c") auto
  with Cons.IH [OF t] vs show ?case by simp
qed

lemma convert_column_length:
  "convert_column conv wrap col = Inr vs \<Longrightarrow> length vs = length col"
  by (drule convert_column_Inr) (simp add: list_all2_lengthD)

lemma convert_column_date:
  "convert_column conv date_cell col = Inr vs \<Longrightarrow> list_all is_datetime vs"
proof (drule convert_column_Inr, induction col vs rule: list_all2_induct)
  case Nil
  then show ?case by simp
next
  case (Cons c col v vs)
  then obtain x where "v = date_cell x" by blast
  then have "is_datetime v" by (cases x) simp_all
  with Cons show ?case by simp
qed

lemma convert_column_num:
  "convert_column conv num_cell col = Inr vs \<Longrightarrow> list_all is_float vs"
proof (drule convert_column_Inr, induction col vs rule: list_all2_induct)
  case Nil
  then show ?case by simp
next
  case (Cons c col v vs)
  then obtain x where "v = num_cell x" by blast
  then have "is_float v" by (cases x) simp_all
  with Cons show ?case by simp
qed

lemma cost_cell_float: "cost_cell c = Inr c' \<Longrightarrow> is_float c'"
  by (cases c) (auto split: sum.splits)

lemma cost_column_float:
  assumes "cost_column col = Inr vs"
  shows "list_all is_float vs \<and> length vs = length col"
proof -
  from assms have "sequence (map cost_cell col) = Inr vs"
    by (simp add: cost_column_def split: if_splits)
  then have "map cost_cell col = map Inr vs" by (simp add: sequence_Inr_iff)
  then show ?thesis
  proof (induction col arbitrary: vs)
    case Nil
    then show ?case by simp
  next
    case (Cons c col)
    then obtain v vs' where "vs = v # vs'" by (cases vs) auto
    with Cons show ?case by (auto simp: cost_cell_float)
  qed
qed

lemma rows_assign: "rows (assign c vs df) = map2 (\<lambda>r v. r(c := v)) (rows df) vs"
  by (simp add: assign_def)

lemma length_rows_assign:
  "length vs = length (rows df) \<Longrightarrow> length (rows (assign c vs df)) = length (rows df)"
  by (simp add: rows_assign)

lemma column_assign:
  assumes "length vs = length (rows df)"
  shows "column (assign c vs df) c' = (if c' = c then vs else column df c')"
proof -
  have "\<And>rs. length vs = length rs \<Longrightarrow>
      map (\<lambda>r. r c') (map2 (\<lambda>r v. r(c := v)) rs vs) = (if c' = c then vs else map (\<lambda>r. r c') rs)"
  proof -
    fix rs :: "(string \<Rightarrow> cell) list"
    assume "length vs = length rs"
    then show "map (\<lambda>r. r c') (map2 (\<lambda>r v. r(c := v)) rs vs)
        = (if c' = c then vs else map (\<lambda>r. r c') rs)"
      by (induction vs rs rule: list_induct2) auto
  qed
  with assms show ?thesis by (simp add: column_def rows_assign)
qed

lemma length_column: "length (column df c) = length (rows df)"
  by (simp add: column_def)

lemma fold_assign:
  assumes "length names = length cols"
    and "\<forall>vs\<in>set cols. length vs = length (rows df)"
    and "distinct names"
  shows "length (rows (fold (\<lambda>(c, vs). assign c vs) (zip names cols) df)) = length (rows df)
       \<and> (\<forall>c. c \<notin> set names \<longrightarrow>
              column (fold (\<lambda>(c, vs). assign c vs) (zip names cols) df) c = column df c)
       \<and> (\<forall>j<length names.
              column (fold (\<lambda>(c, vs). assign c vs) (zip names cols) df) (names ! j) = cols ! j)"
  using assms
proof (induction names cols arbitrary: df rule: list_induct2)
  case Nil
  then show ?case by simp
next
  case (Cons n names vs cols)
  let ?df = "assign n vs df"
  have len: "length vs = length (rows df)" using Cons.prems(1) by simp
  then have rows: "length (rows ?df) = length (rows df)" by (rule length_rows_assign)
  have "\<forall>ws\<in>set cols. length ws = length (rows ?df)"
    using Cons.prems(1) rows by simp
  moreover have "distinct names" using Cons.prems(2) by simp
  ultimately have IH:
    "length (rows (fold (\<lambda>(c, vs). assign c vs) (zip names cols) ?df)) = length (rows ?df)"
    "\<And>c. c \<notin> set names \<Longrightarrow>
       column (fold (\<lambda>(c, vs). assign c vs) (zip names cols) ?df) c = column ?df c"
    "\<And>j. j < length names \<Longrightarrow>
       column (fold (\<lambda>(c, vs). assign c vs) (zip names cols) ?df) (names ! j) = cols ! j"
    using Cons.IH [of ?df] by blast+
  have n: "n \<notin> set names" using Cons.prems(2) by simp
  have a: "length (rows (fold (\<lambda>(c, vs). assign c vs) (zip (n # names) (vs # cols)) df))
      = length (rows df)"
    using IH(1) rows by simp
  have b: "column (fold (\<lambda>(c, vs). assign c vs) (zip (n # names) (vs # cols)) df) c = column df c"
    if "c \<notin> set (n # names)" for c
    using that IH(2) [of c] column_assign [OF len, of n c] by simp
  have c: "column (fold (\<lambda>(c, vs). assign c vs) (zip (n # names) (vs # cols)) df)
      ((n # names) ! j) = (vs # cols) ! j" if "j < length (n # names)" for j
  proof (cases j)
    case 0
    then show ?thesis using IH(2) [OF n] column_assign [OF len, of n n] by simp
  next
    case (Suc k)
    then show ?thesis using that IH(3) [of k] by simp
  qed
  from a b c show ?case by blast
qed

lemma convert_column_ok:
  assumes "convert_column conv wrap col = Inr vs"
  shows "\<forall>c\<in>set col. \<not> isl (conv c)"
proof (rule ccontr)
  assume "\<not> (\<forall>c\<in>set col. \<not> isl (conv c))"
  then have "isl (convert_column conv wrap col)" by (simp add: convert_column_isl)
  with assms show False by simp
qed

lemma numeric_cols_facts:
  "distinct numeric_cols" "''Date'' \<notin> set numeric_cols"
  "''Acquisition_Cost'' \<notin> set numeric_cols"
  by (simp_all add: numeric_cols_def)

lemma validate_data_True:
  assumes "validate_data to_datetime to_numeric df = (True, out)"
  obtains dates cols costs where
    "set required_columns \<subseteq> set (columns df)"
    "convert_column to_datetime date_cell (column df ''Date'') = Inr dates"
    "length cols = length numeric_cols"
    "\<And>j. j < length numeric_cols \<Longrightarrow>
       convert_column to_numeric num_cell (column df (numeric_cols ! j)) = Inr (cols ! j)"
    "cost_column (column df ''Acquisition_Cost'') = Inr costs"
    "length (rows out) = length (rows df)"
    "column out ''Date'' = dates"
    "\<And>j. j < length numeric_cols \<Longrightarrow> column out (numeric_cols ! j) = cols ! j"
    "column out ''Acquisition_Cost'' = costs"
    "\<And>c. c \<noteq> ''Date'' \<Longrightarrow> c \<noteq> ''Acquisition_Cost'' \<Longrightarrow> c \<notin> set numeric_cols
       \<Longrightarrow> column out c = column df c"
proof -
  let ?f = "\<lambda>d c. convert_column to_numeric num_cell (column d c)"
  let ?fold = "\<lambda>cols d. fold (\<lambda>(c, vs). assign c vs) (zip numeric_cols cols) d"
  from assms have req: "set required_columns \<subseteq> set (columns df)"
    by (auto simp: validate_data_def split: if_splits)
  from assms req obtain dates where
    dates: "convert_column to_datetime date_cell (column df ''Date'') = Inr dates"
    by (auto simp: validate_data_def split: sum.splits)
  define df1 where "df1 = assign ''Date'' dates df"
  from assms req dates obtain cols where
    cols: "sequence (map (?f df1) numeric_cols) = Inr cols"
    by (auto simp: validate_data_def df1_def Let_def split: sum.splits)
  define df2 where "df2 = ?fold cols df1"
  from assms req dates cols obtain costs where
    costs: "cost_column (column df2 ''Acquisition_Cost'') = Inr costs"
    and out: "out = assign ''Acquisition_Cost'' costs df2"
    by (auto simp: validate_data_def df1_def df2_def Let_def split: sum.splits)
  have ldates: "length dates = length (rows df)"
    using convert_column_length [OF dates] by (simp add: length_column)
  have rows1: "length (rows df1) = length (rows df)"
    unfolding df1_def using ldates by (rule length_rows_assign)
  have col1: "column df1 c = (if c = ''Date'' then dates else column df c)" for c
    unfolding df1_def using ldates by (rule column_assign)
  from cols have m: "map (?f df1) numeric_cols = map Inr cols" by (simp add: sequence_Inr_iff)
  then have lcols: "length cols = length numeric_cols"
    by (metis length_map)
  have colj: "?f df (numeric_cols ! j) = Inr (cols ! j)" if "j < length numeric_cols" for j
  proof -
    from that have "numeric_cols ! j \<in> set numeric_cols" by simp
    then have "numeric_cols ! j \<noteq> ''Date''" using numeric_cols_facts(2) by metis
    moreover have "?f df1 (numeric_cols ! j) = Inr (cols ! j)"
      using m that lcols by (metis nth_map)
    ultimately show ?thesis by (simp add: col1)
  qed
  have all: "\<forall>vs\<in>set cols. length vs = length (rows df1)"
  proof
    fix vs assume "vs \<in> set cols"
    then obtain j where j: "j < length cols" and vs: "vs = cols ! j"
      by (auto simp: in_set_conv_nth)
    with lcols colj [of j] have "length vs = length (column df (numeric_cols ! j))"
      by (simp add: convert_column_length)
    then show "length vs = length (rows df1)" by (simp add: length_column rows1)
  qed
  note fa = fold_assign [OF lcols [symmetric] all numeric_cols_facts(1), folded df2_def]
  have rows2: "length (rows df2) = length (rows df)" using fa rows1 by simp
  have col2: "column df2 c = column df1 c" if "c \<notin> set numeric_cols" for c
    using fa that by blast
  have col2j: "column df2 (numeric_cols ! j) = cols ! j" if "j < length numeric_cols" for j
    using fa that by blast
  have ac: "column df2 ''Acquisition_Cost'' = column df ''Acquisition_Cost''"
    using col2 [OF numeric_cols_facts(3)] by (simp add: col1)
  have lcosts: "length costs = length (rows df2)"
    using cost_column_float [OF costs] by (simp add: length_column)
  have colo: "column out c = (if c = ''Acquisition_Cost'' then costs else column df2 c)" for c
    unfolding out using lcosts by (rule column_assign)
  have 1: "cost_column (column df ''Acquisition_Cost'') = Inr costs" using costs ac by simp
  have 2: "length (rows out) = length (rows df)"
    unfolding out using length_rows_assign [OF lcosts] rows2 by simp
  have 3: "column out ''Date'' = dates"
    using col2 [OF numeric_cols_facts(2)] by (simp add: colo col1)
  have 4: "column out (numeric_cols ! j) = cols ! j" if "j < length numeric_cols" for j
  proof -
    from that have "numeric_cols ! j \<in> set numeric_cols" by simp
    then have "numeric_cols ! j \<noteq> ''Acquisition_Cost''" using numeric_cols_facts(3) by metis
    then show ?thesis using col2j [OF that] by (simp add: colo)
  qed
  have 5: "column out ''Acquisition_Cost'' = costs" by (simp add: colo)
  have 6: "column out c = column df c"
    if "c \<noteq> ''Date''" "c \<noteq> ''Acquisition_Cost''" "c \<notin> set numeric_cols" for c
    using that col2 [of c] by (simp add: colo col1)
  from req dates lcols colj 1 2 3 4 5 6 show ?thesis by (rule that)
qed

lemma load_data_Some:
  assumes "load_data to_datetime to_numeric read_csv = Some out"
  obtains df where "read_csv = Inr df"
    and "validate_data to_datetime to_numeric df = (True, out)"
proof -
  from assms obtain df where r: "read_csv = Inr df"
    by (cases read_csv) (auto simp: load_data_def)
  obtain b df' where v: "validate_data to_datetime to_numeric df = (b, df')"
    by (cases "validate_data to_datetime to_numeric df")
  with assms r have "b" and "df' = out"
    by (cases b; simp add: load_data_def)+
  with r v show ?thesis by (auto intro: that)
qed

section \<open>Loading passes or fails\<close>

text \<open>
  C3. If a coercion raises on the frame read (the date conversion or a numeric
  conversion on some cell, or the currency conversion of \<open>Acquisition_Cost\<close>), then
  \<open>load_data\<close> returns \<open>None\<close>. Whenever it returns a frame, validation has passed
  and the frame is the whole data set: it has every row of the frame read, its \<open>Date\<close>
  column holds timestamps, and its five numeric columns and \<open>Acquisition_Cost\<close> hold
  numbers. There is no third outcome.
\<close>

theorem load_data_pass_or_fail:
  "(read_csv = Inr df \<and>
      ((\<exists>r\<in>set (rows df). isl (to_datetime (r ''Date'')))
       \<or> (\<exists>r\<in>set (rows df). \<exists>c\<in>set numeric_cols. isl (to_numeric (r c)))
       \<or> isl (cost_column (column df ''Acquisition_Cost'')))
     \<longrightarrow> load_data to_datetime to_numeric read_csv = None)
   \<and> (load_data to_datetime to_numeric read_csv = Some out \<longrightarrow>
       (\<exists>df'. read_csv = Inr df'
          \<and> validate_data to_datetime to_numeric df' = (True, out)
          \<and> length (rows out) = length (rows df')
          \<and> list_all is_datetime (column out ''Date'')
          \<and> (\<forall>c\<in>set numeric_cols. list_all is_float (column out c))
          \<and> list_all is_float (column out ''Acquisition_Cost'')))"
proof (intro conjI impI)
  assume h: "read_csv = Inr df \<and>
      ((\<exists>r\<in>set (rows df). isl (to_datetime (r ''Date'')))
       \<or> (\<exists>r\<in>set (rows df). \<exists>c\<in>set numeric_cols. isl (to_numeric (r c)))
       \<or> isl (cost_column (column df ''Acquisition_Cost'')))"
  show "load_data to_datetime to_numeric read_csv = None"
  proof (rule ccontr)
    assume "load_data to_datetime to_numeric read_csv \<noteq> None"
    then obtain out' where "load_data to_datetime to_numeric read_csv = Some out'" by auto
    then obtain d where "read_csv = Inr d"
      and "validate_data to_datetime to_numeric d = (True, out')"
      by (rule load_data_Some)
    with h have v: "validate_data to_datetime to_numeric df = (True, out')" by simp
    from v obtain dates cols costs where
      "set required_columns \<subseteq> set (columns df)"
      and dates: "convert_column to_datetime date_cell (column df ''Date'') = Inr dates"
      and "length cols = length numeric_cols"
      and colj: "\<And>j. j < length numeric_cols \<Longrightarrow>
         convert_column to_numeric num_cell (column df (numeric_cols ! j)) = Inr (cols ! j)"
      and costs: "cost_column (column df ''Acquisition_Cost'') = Inr costs"
      and "length (rows out') = length (rows df)"
      and "column out' ''Date'' = dates"
      and "\<And>j. j < length numeric_cols \<Longrightarrow> column out' (numeric_cols ! j) = cols ! j"
      and "column out' ''Acquisition_Cost'' = costs"
      and "\<And>c. c \<noteq> ''Date'' \<Longrightarrow> c \<noteq> ''Acquisition_Cost'' \<Longrightarrow> c \<notin> set numeric_cols
         \<Longrightarrow> column out' c = column df c"
      by (rule validate_data_True) (rule that)
    have a: "\<not> (\<exists>r\<in>set (rows df). isl (to_datetime (r ''Date'')))"
      using convert_column_ok [OF dates] by (simp add: column_def)
    have b: "\<not> (\<exists>r\<in>set (rows df). \<exists>c\<in>set numeric_cols. isl (to_numeric (r c)))"
    proof
      assume "\<exists>r\<in>set (rows df). \<exists>c\<in>set numeric_cols. isl (to_numeric (r c))"
      then obtain r c where r: "r \<in> set (rows df)" and c: "c \<in> set numeric_cols"
        and bad: "isl (to_numeric (r c))" by blast
      from c obtain j where j: "j < length numeric_cols" and cj: "c = numeric_cols ! j"
        by (auto simp: in_set_conv_nth)
      from convert_column_ok [OF colj [OF j]] r have "\<not> isl (to_numeric (r c))"
        by (simp add: column_def cj)
      with bad show False by simp
    qed
    have c: "\<not> isl (cost_column (column df ''Acquisition_Cost''))"
      using costs by simp
    from h a b c show False by blast
  qed
next
  assume "load_data to_datetime to_numeric read_csv = Some out"
  then obtain d where r: "read_csv = Inr d"
    and v: "validate_data to_datetime to_numeric d = (True, out)"
    by (rule load_data_Some)
  from v obtain dates cols costs where
    "set required_columns \<subseteq> set (columns d)"
    and dates: "convert_column to_datetime date_cell (column d ''Date'') = Inr dates"
    and "length cols = length numeric_cols"
    and colj: "\<And>j. j < length numeric_cols \<Longrightarrow>
       convert_column to_numeric num_cell (column d (numeric_cols ! j)) = Inr (cols ! j)"
    and costs: "cost_column (column d ''Acquisition_Cost'') = Inr costs"
    and len: "length (rows out) = length (rows d)"
    and odate: "column out ''Date'' = dates"
    and onum: "\<And>j. j < length numeric_cols \<Longrightarrow> column out (numeric_cols ! j) = cols ! j"
    and ocost: "column out ''Acquisition_Cost'' = costs"
    and "\<And>c. c \<noteq> ''Date'' \<Longrightarrow> c \<noteq> ''Acquisition_Cost'' \<Longrightarrow> c \<notin> set numeric_cols
       \<Longrightarrow> column out c = column d c"
    by (rule validate_data_True) (rule that)
  have 1: "list_all is_datetime (column out ''Date'')"
    using convert_column_date [OF dates] odate by simp
  have 2: "\<forall>c\<in>set numeric_cols. list_all is_float (column out c)"
  proof
    fix c assume "c \<in> set numeric_cols"
    then obtain j where j: "j < length numeric_cols" and cj: "c = numeric_cols ! j"
      by (auto simp: in_set_conv_nth)
    show "list_all is_float (column out c)"
      using convert_column_num [OF colj [OF j]] onum [OF j] cj by simp
  qed
  have 3: "list_all is_float (column out ''Acquisition_Cost'')"
    using cost_column_float [OF costs] ocost by simp
  from r v len 1 2 3
  show "\<exists>df'. read_csv = Inr df'
          \<and> validate_data to_datetime to_numeric df' = (True, out)
          \<and> length (rows out) = length (rows df')
          \<and> list_all is_datetime (column out ''Date'')
          \<and> (\<forall>c\<in>set numeric_cols. list_all is_float (column out c))
          \<and> list_all is_float (column out ''Acquisition_Cost'')"
    by blast
qed

lemma good_frame_loads:
  "load_data sample_to_datetime sample_to_numeric (Inr good_frame) \<noteq> None"
  by code_simp

lemma bad_frame_cost: "isl (cost_column (column bad_frame ''Acquisition_Cost''))"
  by code_simp


theorem load_data_pass_or_fail_witness:
  "load_data sample_to_datetime sample_to_numeric (Inr bad_frame) = None
   \<and> (\<exists>out. load_data sample_to_datetime sample_to_numeric (Inr good_frame) = Some out
         \<and> length (rows out) = length (rows good_frame)
         \<and> list_all is_datetime (column out ''Date'')
         \<and> (\<forall>c\<in>set numeric_cols. list_all is_float (column out c))
         \<and> list_all is_float (column out ''Acquisition_Cost''))"
proof
  show "load_data sample_to_datetime sample_to_numeric (Inr bad_frame) = None"
    using load_data_pass_or_fail
      [of "Inr bad_frame" bad_frame sample_to_datetime sample_to_numeric] bad_frame_cost
    by simp
next
  from good_frame_loads obtain out
    where out: "load_data sample_to_datetime sample_to_numeric (Inr good_frame) = Some out"
    by auto
  with load_data_pass_or_fail
    [of "Inr good_frame" good_frame sample_to_datetime sample_to_numeric out]
  show "\<exists>out. load_data sample_to_datetime sample_to_numeric (Inr good_frame) = Some out
         \<and> length (rows out) = length (rows good_frame)
         \<and> list_all is_datetime (column out ''Date'')
         \<and> (\<forall>c\<in>set numeric_cols. list_all is_float (column out c))
         \<and> list_all is_float (column out ''Acquisition_Cost'')"
    by auto
qed

section \<open>The cohort analyzer: auxiliary facts\<close>













section \<open>Months since the first campaign\<close>





section \<open>The retention matrix\<close>

text \<open>
  C2, evaluated on two campaigns of one audience, one in January and one in February
  2021. \<open>Cohort_Month\<close> is the month of the record itself, so the matrix has a row for
  February, whose records all have the offset 1: its cell at offset 0 is absent before
  the division and NaN after it, not 1.
\<close>

theorem retention_month_0_missing:
  "map_sum id (month_0_cells \<circ> retention) (run_cohort_analysis [row_jan, row_feb])
     = Inr [(24252, Some 1), (24253, None)]"
  by code_simp

section \<open>The analyzers: auxiliary facts\<close>







section \<open>Significance\<close>








lemma rfm_rows:
  assumes "calculate_rfm_metrics now df = Inr rfm" and "(a, row) \<in> set rfm"
  shows "row = rfm_of now (filter (\<lambda>r. Target_Audience r = Some a) df)"
  using assms by (auto simp: calculate_rfm_metrics_def split: if_splits)

lemma timedelta_days_whole:
  assumes "0 \<le> seconds now" and "seconds now < 86400"
  shows "timedelta_days now d = days_from_civil (on_date now) - days_from_civil d"
proof -
  have "(k * 86400 + seconds now) div 86400 = k" for k :: int
    using assms by (simp add: div_pos_pos_trivial)
  then show ?thesis by (simp add: timedelta_days_def)
qed

section \<open>Recency\<close>

text \<open>
  C10. In the RFM table the \<open>Recency_Days\<close> of an audience is the number of whole days
  from the most recent \<open>Date\<close> of its records to the instant \<open>now\<close> of the call, which,
  the dates being midnights, is the number of days from that date to the day of \<open>now\<close>.
  The table depends on \<open>now\<close>: for one and the same frame, the tables at noon of
  2021-03-01 and at noon of 2021-03-02 differ.
\<close>

theorem rfm_recency_from_now:
  "(calculate_rfm_metrics now df = Inr rfm \<and> (a, row) \<in> set rfm \<longrightarrow>
      Recency_Days row =
        map_option (timedelta_days now)
          (max_date (map Date (filter (\<lambda>r. Target_Audience r = Some a) df))))
   \<and> (0 \<le> seconds now \<and> seconds now < 86400 \<longrightarrow>
        timedelta_days now d = days_from_civil (on_date now) - days_from_civil d)
   \<and> calculate_rfm_metrics noon_2021_03_01 cohort_sample
        \<noteq> calculate_rfm_metrics noon_2021_03_02 cohort_sample"
proof (intro conjI impI)
  assume "calculate_rfm_metrics now df = Inr rfm \<and> (a, row) \<in> set rfm"
  then have "row = rfm_of now (filter (\<lambda>r. Target_Audience r = Some a) df)"
    using rfm_rows by blast
  then show "Recency_Days row =
        map_option (timedelta_days now)
          (max_date (map Date (filter (\<lambda>r. Target_Audience r = Some a) df)))"
    by (simp add: rfm_of_def Let_def)
next
  assume "0 \<le> seconds now \<and> seconds now < 86400"
  then show "timedelta_days now d = days_from_civil (on_date now) - days_from_civil d"
    by (simp add: timedelta_days_whole)
next
  show "calculate_rfm_metrics noon_2021_03_01 cohort_sample
        \<noteq> calculate_rfm_metrics noon_2021_03_02 cohort_sample"
    by code_simp
qed

lemma sample_rfm_run:
  "calculate_rfm_metrics noon_2021_03_01 cohort_sample = Inr sample_rfm
   \<and> (''Men 18-24'', snd (hd sample_rfm)) \<in> set sample_rfm"
  by code_simp

lemma noon_seconds: "0 \<le> seconds noon_2021_03_01 \<and> seconds noon_2021_03_01 < 86400"
  by (simp add: noon_2021_03_01_def)

theorem rfm_recency_from_now_witness:
  "(calculate_rfm_metrics noon_2021_03_01 cohort_sample = Inr sample_rfm
      \<and> (''Men 18-24'', snd (hd sample_rfm)) \<in> set sample_rfm)
   \<and> Recency_Days (snd (hd sample_rfm)) =
        map_option (timedelta_days noon_2021_03_01)
          (max_date (map Date (filter (\<lambda>r. Target_Audience r = Some ''Men 18-24'') cohort_sample)))
   \<and> (0 \<le> seconds noon_2021_03_01 \<and> seconds noon_2021_03_01 < 86400)
   \<and> timedelta_days noon_2021_03_01 \<lparr>year = 2021, month = 2, day = 15\<rparr>
        = days_from_civil (on_date noon_2021_03_01)
          - days_from_civil \<lparr>year = 2021, month = 2, day = 15\<rparr>"
  using sample_rfm_run noon_seconds
    rfm_recency_from_now [of noon_2021_03_01 cohort_sample sample_rfm "''Men 18-24''"
      "snd (hd sample_rfm)" "\<lparr>year = 2021, month = 2, day = 15\<rparr>"]
  by blast

lemma set_drop_duplicates_id:
  "set (drop_duplicates (\<lambda>c. c) seen xs) = set xs - set seen"
  by (induction xs arbitrary: seen) auto

lemma recommend_eq:
  "recommend df channel =
     [if less_than (mean (map ROI df)) (mean (map ROI (channel_rows df channel)))
      then high_roi_text (mean (map ROI (channel_rows df channel)))
      else low_roi_text (mean (map ROI (channel_rows df channel)))]
     @ (if less_than (mean (map Conversion_Rate (channel_rows df channel)))
             (mean (map Conversion_Rate df))
        then [low_conversion_text (mean (map Conversion_Rate (channel_rows df channel)))]
        else [])
     @ (if less_than (cost_mean df) (cost_mean (channel_rows df channel))
        then [high_cost_text (cost_mean (channel_rows df channel))] else [])
     @ (if less_than (mean (map Engagement_Score (channel_rows df channel)))
             (mean (map Engagement_Score df))
        then [low_engagement_text (mean (map Engagement_Score (channel_rows df channel)))]
        else [])
     @ (if less_than (mean (map Engagement_Rate (channel_rows df channel)))
             (mean (map Engagement_Rate df))
        then [low_engagement_rate_text (mean (map Engagement_Rate (channel_rows df channel)))]
        else [])"
  by (simp add: recommend_def Let_def)

lemma recommend_length: "1 \<le> length (recommend df channel) \<and> length (recommend df channel) \<le> 5"
  unfolding recommend_eq by simp

section \<open>Recommendations\<close>

text \<open>
  C9, as the code has it. Every channel of the frame gets a list of texts. The first is
  always the ROI text: the increase-budget text when the channel's mean ROI is above the
  global mean, the review-strategy text otherwise (equal means included). Each of the
  other four comparisons adds its text only on its unfavourable side: conversion rate
  below, acquisition cost above, engagement score below, engagement rate below the
  global mean. So a channel gets between one and five texts, in this order.
\<close>

theorem channel_recommendations_rules:
  "calculate_channel_recommendations df = Inr recs \<and> (channel, strs) \<in> set recs \<longrightarrow>
     channel \<in> set (map Channel_Used df)
     \<and> set (map fst recs) = set (map Channel_Used df)
     \<and> strs =
        [if less_than (mean (map ROI df)) (mean (map ROI (channel_rows df channel)))
         then high_roi_text (mean (map ROI (channel_rows df channel)))
         else low_roi_text (mean (map ROI (channel_rows df channel)))]
        @ (if less_than (mean (map Conversion_Rate (channel_rows df channel)))
                (mean (map Conversion_Rate df))
           then [low_conversion_text (mean (map Conversion_Rate (channel_rows df channel)))]
           else [])
        @ (if less_than (cost_mean df) (cost_mean (channel_rows df channel))
           then [high_cost_text (cost_mean (channel_rows df channel))] else [])
        @ (if less_than (mean (map Engagement_Score (channel_rows df channel)))
                (mean (map Engagement_Score df))
           then [low_engagement_text (mean (map Engagement_Score (channel_rows df channel)))]
           else [])
        @ (if less_than (mean (map Engagement_Rate (channel_rows df channel)))
                (mean (map Engagement_Rate df))
           then [low_engagement_rate_text (mean (map Engagement_Rate (channel_rows df channel)))]
           else [])
     \<and> 1 \<le> length strs \<and> length strs \<le> 5"
proof
  assume h: "calculate_channel_recommendations df = Inr recs \<and> (channel, strs) \<in> set recs"
  then have recs: "recs = map (\<lambda>channel. (channel, recommend df channel))
      (drop_duplicates (\<lambda>c. c) [] (map Channel_Used df))"
    by (auto simp: calculate_channel_recommendations_def split: if_splits)
  with h have ch: "channel \<in> set (drop_duplicates (\<lambda>c. c) [] (map Channel_Used df))"
    and strs: "strs = recommend df channel" by auto
  from ch have 1: "channel \<in> set (map Channel_Used df)"
    by (simp only: set_drop_duplicates_id) simp
  have "map fst recs = drop_duplicates (\<lambda>c. c) [] (map Channel_Used df)"
    unfolding recs by (simp add: o_def)
  then have 2: "set (map fst recs) = set (map Channel_Used df)"
    by (simp only: set_drop_duplicates_id) simp
  from strs have 3: "1 \<le> length strs \<and> length strs \<le> 5" by (simp only: recommend_length)
  from 1 2 3 strs recommend_eq [of df channel]
  show "channel \<in> set (map Channel_Used df)
     \<and> set (map fst recs) = set (map Channel_Used df)
     \<and> strs =
        [if less_than (mean (map ROI df)) (mean (map ROI (channel_rows df channel)))
         then high_roi_text (mean (map ROI (channel_rows df channel)))
         else low_roi_text (mean (map ROI (channel_rows df channel)))]
        @ (if less_than (mean (map Conversion_Rate (channel_rows df channel)))
                (mean (map Conversion_Rate df))
           then [low_conversion_text (mean (map Conversion_Rate (channel_rows df channel)))]
           else [])
        @ (if less_than (cost_mean df) (cost_mean (channel_rows df channel))
           then [high_cost_text (cost_mean (channel_rows df channel))] else [])
        @ (if less_than (mean (map Engagement_Score (channel_rows df channel)))
                (mean (map Engagement_Score df))
           then [low_engagement_text (mean (map Engagement_Score (channel_rows df channel)))]
           else [])
        @ (if less_than (mean (map Engagement_Rate (channel_rows df channel)))
                (mean (map Engagement_Rate df))
           then [low_engagement_rate_text (mean (map Engagement_Rate (channel_rows df channel)))]
           else [])
     \<and> 1 \<le> length strs \<and> length strs \<le> 5"
    by (simp only: simp_thms)
qed

lemma sample_recommendations_run:
  "calculate_channel_recommendations channel_sample = Inr sample_recommendations
   \<and> (Some ''YouTube'', snd (sample_recommendations ! 1)) \<in> set sample_recommendations"
  by code_simp

theorem channel_recommendations_rules_witness:
  "(calculate_channel_recommendations channel_sample = Inr sample_recommendations
    \<and> (Some ''YouTube'', snd (sample_recommendations ! 1)) \<in> set sample_recommendations)
   \<and> (Some ''YouTube'' \<in> set (map Channel_Used channel_sample)
     \<and> set (map fst sample_recommendations) = set (map Channel_Used channel_sample)
     \<and> snd (sample_recommendations ! 1) =
        [if less_than (mean (map ROI channel_sample))
              (mean (map ROI (channel_rows channel_sample (Some ''YouTube''))))
         then high_roi_text (mean (map ROI (channel_rows channel_sample (Some ''YouTube''))))
         else low_roi_text (mean (map ROI (channel_rows channel_sample (Some ''YouTube''))))]
        @ (if less_than (mean (map Conversion_Rate (channel_rows channel_sample (Some ''YouTube''))))
                (mean (map Conversion_Rate channel_sample))
           then [low_conversion_text
                   (mean (map Conversion_Rate (channel_rows channel_sample (Some ''YouTube''))))]
           else [])
        @ (if less_than (cost_mean channel_sample)
                (cost_mean (channel_rows channel_sample (Some ''YouTube'')))
           then [high_cost_text (cost_mean (channel_rows channel_sample (Some ''YouTube'')))]
           else [])
        @ (if less_than (mean (map Engagement_Score (channel_rows channel_sample (Some ''YouTube''))))
                (mean (map Engagement_Score channel_sample))
           then [low_engagement_text
                   (mean (map Engagement_Score (channel_rows channel_sample (Some ''YouTube''))))]
           else [])
        @ (if less_than (mean (map Engagement_Rate (channel_rows channel_sample (Some ''YouTube''))))
                (mean (map Engagement_Rate channel_sample))
           then [low_engagement_rate_text
                   (mean (map Engagement_Rate (channel_rows channel_sample (Some ''YouTube''))))]
           else [])
     \<and> 1 \<le> length (snd (sample_recommendations ! 1))
     \<and> length (snd (sample_recommendations ! 1)) \<le> 5)"
  using sample_recommendations_run
    channel_recommendations_rules [of channel_sample sample_recommendations "Some ''YouTube''"
      "snd (sample_recommendations ! 1)"]
  by blast

text \<open>
  A frame of one campaign: its channel's means are the global means, so the ROI rule
  takes its second branch and no other rule adds a text.
\<close>

theorem channel_recommendations_single_counterexample:
  "calculate_channel_recommendations [row_jan]
     = Inr [(Some ''Google Ads'',
             [''Below average ROI (ROI: 6.29). Review campaign strategy and targeting.''])]"
  by code_simp

end
